theory Spec2Isabelle
  imports Complex_Main "HOL-Library.Char_ord" "HOL-Library.List_Lexorder"
begin

section \<open>Python values\<close>

text \<open>
  The engine of \<^verbatim>\<open>Python/main.py\<close> computes on Python floats, strings, lists and
  dictionaries. Floats are modelled as \<^typ>\<open>real\<close> (rounding is not modelled), a string as
  \<^typ>\<open>string\<close>, a dictionary as an association list in the insertion order of its
  literal (the order in which \<^verbatim>\<open>items()\<close> iterates), and an exception as the left
  summand of a result.
\<close>

datatype py_error = KeyError string | ZeroDivisionError

type_synonym ('k, 'v) dict = "('k \<times> 'v) list"

text \<open>\<^verbatim>\<open>d.get(k, dflt)\<close>\<close>

definition dict_get :: "('k, 'v) dict \<Rightarrow> 'k \<Rightarrow> 'v \<Rightarrow> 'v" where
  "dict_get d k dflt = (case map_of d k of None \<Rightarrow> dflt | Some v \<Rightarrow> v)"

text \<open>\<^verbatim>\<open>d[k]\<close>, which raises \<^verbatim>\<open>KeyError\<close> on a missing key\<close>

definition dict_index :: "(string, 'v) dict \<Rightarrow> string \<Rightarrow> py_error + 'v" where
  "dict_index d k = (case map_of d k of None \<Rightarrow> Inl (KeyError k) | Some v \<Rightarrow> Inr v)"

text \<open>\<^verbatim>\<open>k in d\<close>\<close>

definition dict_has :: "('k, 'v) dict \<Rightarrow> 'k \<Rightarrow> bool" where
  "dict_has d k = (case map_of d k of None \<Rightarrow> False | Some v \<Rightarrow> True)"

section \<open>Configuration tables\<close>

definition BASELINES_2024 :: "(string, (string, real \<times> real) dict) dict" where
  "BASELINES_2024 =
    [(''cybersecurity_engineer'',
        [(''entry'', (90000, 120000)), (''mid'', (120000, 160000)), (''senior'', (160000, 210000))]),
     (''cloud_security_engineer'',
        [(''entry'', (105000, 135000)), (''mid'', (135000, 175000)), (''senior'', (175000, 230000))]),
     (''devsecops_engineer'',
        [(''entry'', (100000, 130000)), (''mid'', (130000, 170000)), (''senior'', (170000, 225000))]),
     (''appsec_engineer'',
        [(''entry'', (100000, 135000)), (''mid'', (135000, 180000)), (''senior'', (180000, 240000))]),
     (''soc_analyst'',
        [(''entry'', (70000, 95000)), (''mid'', (95000, 125000)), (''senior'', (125000, 160000))]),
     (''incident_response_dfir'',
        [(''entry'', (95000, 125000)), (''mid'', (125000, 165000)), (''senior'', (165000, 220000))]),
     (''threat_hunter'',
        [(''entry'', (100000, 130000)), (''mid'', (130000, 175000)), (''senior'', (175000, 230000))]),
     (''penetration_tester'',
        [(''entry'', (85000, 115000)), (''mid'', (115000, 155000)), (''senior'', (155000, 210000))]),
     (''iam_engineer'',
        [(''entry'', (90000, 120000)), (''mid'', (120000, 160000)), (''senior'', (160000, 210000))]),
     (''security_architect'',
        [(''entry'', (135000, 175000)), (''mid'', (175000, 220000)), (''senior'', (220000, 280000))]),
     (''grc_analyst'',
        [(''entry'', (80000, 105000)), (''mid'', (105000, 140000)), (''senior'', (140000, 185000))])]"

definition CAGR_BY_ROLE :: "(string, real) dict" where
  "CAGR_BY_ROLE =
    [(''default'', 0.05),
     (''cloud_security_engineer'', 0.07),
     (''devsecops_engineer'', 0.07),
     (''appsec_engineer'', 0.06),
     (''security_architect'', 0.06)]"

definition INFLATION_2024_TO_2026 :: real where
  "INFLATION_2024_TO_2026 = 1.07"

definition GEO_MULTIPLIER :: "(string, real) dict" where
  "GEO_MULTIPLIER =
    [(''CA'', 1.18), (''NY'', 1.15), (''WA'', 1.12), (''MA'', 1.10), (''DC'', 1.12),
     (''VA'', 1.07), (''TX'', 1.03), (''FL'', 1.00), (''IL'', 1.02), (''CO'', 1.05),
     (''GA'', 0.98), (''NC'', 0.98), (''AZ'', 0.97), (''OH'', 0.95), (''PA'', 0.97),
     (''REMOTE'', 1.00), (''DEFAULT'', 1.00)]"

definition SKILL_PREMIUM :: "(string, real) dict" where
  "SKILL_PREMIUM =
    [(''aws_security'', 0.05), (''azure_security'', 0.05), (''gcp_security'', 0.05),
     (''kubernetes'', 0.04), (''terraform'', 0.03), (''containers'', 0.03),
     (''cnapp'', 0.04), (''cspm'', 0.03),
     (''zero_trust'', 0.04), (''iam'', 0.03), (''okta'', 0.02), (''entra_id'', 0.02),
     (''sso_saml_oidc'', 0.02), (''siem'', 0.03), (''soar'', 0.03), (''edr'', 0.02),
     (''dfir'', 0.05), (''incident_response'', 0.04), (''threat_hunting'', 0.04),
     (''malware_analysis'', 0.04), (''reverse_engineering'', 0.04),
     (''secure_sdlc'', 0.03), (''sast_dast'', 0.03), (''threat_modeling'', 0.03),
     (''oscp'', 0.06), (''gcih'', 0.05), (''gcfa'', 0.05), (''gpen'', 0.05),
     (''cissp'', 0.05), (''ccsp'', 0.05), (''security_plus'', 0.02)]"

definition ROLE_ALIASES :: "(string, string) dict" where
  "ROLE_ALIASES =
    [(''security engineer'', ''cybersecurity_engineer''),
     (''cybersecurity engineer'', ''cybersecurity_engineer''),
     (''cyber security engineer'', ''cybersecurity_engineer''),
     (''cloud security engineer'', ''cloud_security_engineer''),
     (''devsecops engineer'', ''devsecops_engineer''),
     (''application security engineer'', ''appsec_engineer''),
     (''appsec engineer'', ''appsec_engineer''),
     (''soc analyst'', ''soc_analyst''),
     (''incident response'', ''incident_response_dfir''),
     (''dfir'', ''incident_response_dfir''),
     (''threat hunter'', ''threat_hunter''),
     (''penetration tester'', ''penetration_tester''),
     (''pen tester'', ''penetration_tester''),
     (''red team'', ''penetration_tester''),
     (''iam engineer'', ''iam_engineer''),
     (''security architect'', ''security_architect''),
     (''grc analyst'', ''grc_analyst'')]"

definition LEVEL_ALIASES :: "(string, string) dict" where
  "LEVEL_ALIASES =
    [(''junior'', ''entry''), (''entry'', ''entry''), (''entry-level'', ''entry''),
     (''mid'', ''mid''), (''mid-level'', ''mid''), (''intermediate'', ''mid''),
     (''senior'', ''senior''), (''lead'', ''senior''), (''staff'', ''senior''),
     (''principal'', ''senior'')]"

definition DEFAULT_WEIGHTS :: "(string, real) dict" where
  "DEFAULT_WEIGHTS =
    [(''cagr'', 0.20), (''inflation'', 0.20), (''skills'', 0.20), (''geo'', 0.20),
     (''regression'', 0.20)]"

section \<open>Model 4: skills premium\<close>

text \<open>The loop \<^verbatim>\<open>for s in skills: total += SKILL_PREMIUM.get(s, 0.0)\<close>.\<close>

fun skills_total :: "real \<Rightarrow> string list \<Rightarrow> real" where
  "skills_total tot [] = tot"
| "skills_total tot (s # ss) = skills_total (tot + dict_get SKILL_PREMIUM s 0.0) ss"

definition compute_skills_multiplier :: "string list \<Rightarrow> real" where
  "compute_skills_multiplier sk =
    (let tot = skills_total 0.0 sk;
         tot = min tot 0.25
     in 1.0 + (0.85 * tot))"

text \<open>
  The premium the specification gives a token: its table entry, and zero for a token
  that is not in the table.
\<close>

definition table_premium :: "string \<Rightarrow> real" where
  "table_premium s = (case map_of SKILL_PREMIUM s of None \<Rightarrow> 0 | Some p \<Rightarrow> p)"

section \<open>Strings\<close>

text \<open>
  Strings are sequences of 8-bit characters and the string operations are those of
  Python on ASCII text: \<^verbatim>\<open>str.lower\<close> and \<^verbatim>\<open>str.upper\<close> change the letters A to Z
  and a to z only, and \<^verbatim>\<open>str.strip\<close> removes the ASCII characters for which
  \<^verbatim>\<open>str.isspace\<close> holds (codes 9 to 13, 28 to 31 and 32).
\<close>

definition is_space :: "char \<Rightarrow> bool" where
  "is_space c = (c \<in> set [CHR 0x09, CHR 0x0A, CHR 0x0B, CHR 0x0C, CHR 0x0D,
                            CHR 0x1C, CHR 0x1D, CHR 0x1E, CHR 0x1F, CHR 0x20])"

definition strip :: "string \<Rightarrow> string" where
  "strip s = rev (dropWhile is_space (rev (dropWhile is_space s)))"

definition lower_char :: "char \<Rightarrow> char" where
  "lower_char c =
    dict_get (zip ''ABCDEFGHIJKLMNOPQRSTUVWXYZ'' ''abcdefghijklmnopqrstuvwxyz'') c c"

definition upper_char :: "char \<Rightarrow> char" where
  "upper_char c =
    dict_get (zip ''abcdefghijklmnopqrstuvwxyz'' ''ABCDEFGHIJKLMNOPQRSTUVWXYZ'') c c"

definition lower :: "string \<Rightarrow> string" where
  "lower s = map lower_char s"

definition upper :: "string \<Rightarrow> string" where
  "upper s = map upper_char s"

text \<open>\<^verbatim>\<open>s.startswith(k)\<close>\<close>

fun startswith :: "string \<Rightarrow> string \<Rightarrow> bool" where
  "startswith s [] = True"
| "startswith [] (k # ks) = False"
| "startswith (c # cs) (k # ks) = (c = k \<and> startswith cs ks)"

text \<open>\<^verbatim>\<open>k in t\<close> on strings: \<open>k\<close> occurs in \<open>t\<close> as a contiguous substring\<close>

fun str_contains :: "string \<Rightarrow> string \<Rightarrow> bool" where
  "str_contains k [] = (k = [])"
| "str_contains k (c # cs) = (startswith (c # cs) k \<or> str_contains k cs)"

text \<open>\<^verbatim>\<open>s.replace(a, b)\<close> for one-character strings \<open>a\<close> and \<open>b\<close>\<close>

definition replace_char :: "char \<Rightarrow> char \<Rightarrow> string \<Rightarrow> string" where
  "replace_char a b s = map (\<lambda>c. if c = a then b else c) s"

text \<open>
  \<^verbatim>\<open>re.search(rf"\b{k}\b", t)\<close> for a literal \<open>k\<close> (the level aliases hold letters and
  the hyphen only, none of which is special in a regular expression). A word character
  is a letter, a digit or the underscore; \<^verbatim>\<open>\b\<close> holds between two positions of which
  exactly one is a word character, the two ends of the text counting as non-word.
\<close>

definition is_word_char :: "char \<Rightarrow> bool" where
  "is_word_char c =
    (c \<in> set ''abcdefghijklmnopqrstuvwxyzABCDEFGHIJKLMNOPQRSTUVWXYZ0123456789_'')"

definition is_word_opt :: "char option \<Rightarrow> bool" where
  "is_word_opt x = (case x of None \<Rightarrow> False | Some c \<Rightarrow> is_word_char c)"

definition word_boundary :: "char option \<Rightarrow> char option \<Rightarrow> bool" where
  "word_boundary prv nxt = (is_word_opt prv \<noteq> is_word_opt nxt)"

definition head_opt :: "string \<Rightarrow> char option" where
  "head_opt s = (case s of [] \<Rightarrow> None | c # cs \<Rightarrow> Some c)"

definition last_opt :: "char option \<Rightarrow> string \<Rightarrow> char option" where
  "last_opt prv s = (if s = [] then prv else Some (last s))"

text \<open>The pattern matches at the start of \<open>t\<close>, the character before \<open>t\<close> being \<open>prv\<close>.\<close>

definition word_match_here :: "string \<Rightarrow> char option \<Rightarrow> string \<Rightarrow> bool" where
  "word_match_here k prv t =
    (word_boundary prv (head_opt t) \<and> startswith t k
     \<and> word_boundary (last_opt prv k) (head_opt (drop (length k) t)))"

fun word_search_from :: "string \<Rightarrow> char option \<Rightarrow> string \<Rightarrow> bool" where
  "word_search_from k prv [] = word_match_here k prv []"
| "word_search_from k prv (c # cs) =
    (word_match_here k prv (c # cs) \<or> word_search_from k (Some c) cs)"

definition re_search_word :: "string \<Rightarrow> string \<Rightarrow> bool" where
  "re_search_word k t = word_search_from k None t"

text \<open>\<^verbatim>\<open>sorted(set(xs))\<close> on a list of strings\<close>

definition sorted_set :: "string list \<Rightarrow> string list" where
  "sorted_set xs = sort (remdups xs)"

section \<open>Input and output\<close>

record PredictionInput =
  role :: string
  level :: string
  years_experience :: real
  state :: string
  skills :: "string list"
  job_description :: "string option"

text \<open>
  The field \<^verbatim>\<open>regression_adjustment\<close> of the source is \<open>regression_adjustment_field\<close>
  here, the name being that of the function as well.
\<close>

record PredictionBreakdown =
  baseline_low :: real
  baseline_high :: real
  cagr_low :: real
  cagr_high :: real
  inflation_low :: real
  inflation_high :: real
  skills_multiplier :: real
  geo_multiplier :: real
  regression_adjustment_field :: real
  final_low :: real
  final_mid :: real
  final_high :: real

section \<open>Model 1: heuristic extraction\<close>

text \<open>
  The result dictionary of \<^verbatim>\<open>extract_from_text\<close>, with its three fixed keys
  \<^verbatim>\<open>role_key\<close>, \<^verbatim>\<open>level\<close> and \<^verbatim>\<open>skills\<close>.
\<close>

record Extracted =
  ext_role_key :: "string option"
  ext_level :: "string option"
  ext_skills :: "string list"

text \<open>\<^verbatim>\<open>for k, v in d.items(): if k in t: found = v; break\<close>\<close>

fun first_contained :: "(string, string) dict \<Rightarrow> string \<Rightarrow> string option" where
  "first_contained [] t = None"
| "first_contained ((k, v) # kvs) t =
    (if str_contains k t then Some v else first_contained kvs t)"

text \<open>The same loop with the word-boundary search as its test.\<close>

fun first_word_match :: "(string, string) dict \<Rightarrow> string \<Rightarrow> string option" where
  "first_word_match [] t = None"
| "first_word_match ((k, v) # kvs) t =
    (if re_search_word k t then Some v else first_word_match kvs t)"

definition detect_skills :: "string \<Rightarrow> string list" where
  "detect_skills t =
    filter (\<lambda>sk. let token = replace_char (CHR ''_'') (CHR '' '') sk
                 in str_contains token t \<or> str_contains sk t)
           (map fst SKILL_PREMIUM)"

definition detect_certs :: "string \<Rightarrow> string list" where
  "detect_certs t =
    map (\<lambda>cert. if str_contains ''security'' cert then ''security_plus'' else cert)
        (filter (\<lambda>cert. str_contains cert t)
           [''oscp'', ''cissp'', ''ccsp'', ''gcih'', ''gcfa'', ''gpen'', ''security+'',
            ''security plus''])"

definition extract_from_text :: "string \<Rightarrow> Extracted" where
  "extract_from_text text =
    (let t = lower text;
         role_key = first_contained ROLE_ALIASES t;
         lvl = first_word_match LEVEL_ALIASES t;
         detected_skills = detect_skills t @ detect_certs t
     in \<lparr>ext_role_key = role_key, ext_level = lvl,
         ext_skills = sorted_set detected_skills\<rparr>)"

section \<open>Models 2, 3, 5 and 6: growth, inflation, geography, regression\<close>

text \<open>
  \<^verbatim>\<open>x ** n\<close> for a float \<open>x\<close> and an integer \<open>n\<close>; a zero base with a negative
  exponent raises.
\<close>

definition float_pow :: "real \<Rightarrow> int \<Rightarrow> py_error + real" where
  "float_pow x n =
    (if 0 \<le> n then Inr (x ^ nat n)
     else if x = 0 then Inl ZeroDivisionError
     else Inr (1 / x ^ nat (- n)))"

definition apply_cagr :: "real \<Rightarrow> real \<Rightarrow> string \<Rightarrow> int \<Rightarrow> py_error + real \<times> real" where
  "apply_cagr low high role_key years =
    (case dict_index CAGR_BY_ROLE ''default'' of
       Inl e \<Rightarrow> Inl e
     | Inr dflt \<Rightarrow>
        (let cagr = dict_get CAGR_BY_ROLE role_key dflt
         in case float_pow (1.0 + cagr) years of
              Inl e \<Rightarrow> Inl e
            | Inr factor \<Rightarrow> Inr (low * factor, high * factor)))"

definition apply_inflation :: "real \<Rightarrow> real \<Rightarrow> real \<times> real" where
  "apply_inflation low high = (low * INFLATION_2024_TO_2026, high * INFLATION_2024_TO_2026)"

definition compute_geo_multiplier :: "string \<Rightarrow> py_error + real" where
  "compute_geo_multiplier st =
    (let key = upper (strip st)
     in case dict_index GEO_MULTIPLIER ''DEFAULT'' of
          Inl e \<Rightarrow> Inl e
        | Inr dflt \<Rightarrow> Inr (dict_get GEO_MULTIPLIER key dflt))"

text \<open>\<^verbatim>\<open>np.clip(x, lo, hi)\<close>, which is \<^verbatim>\<open>minimum(maximum(x, lo), hi)\<close>\<close>

definition np_clip :: "real \<Rightarrow> real \<Rightarrow> real \<Rightarrow> real" where
  "np_clip x lo hi = min (max x lo) hi"

definition regression_adjustment :: "string \<Rightarrow> string \<Rightarrow> real \<Rightarrow> real" where
  "regression_adjustment role_key lvl years_exp =
    (let target = dict_get [(''entry'', 1.0), (''mid'', 4.0), (''senior'', 8.0)] lvl 4.0;
         delta = years_exp - target;
         leverage =
           (if role_key \<in> set [''security_architect'', ''cloud_security_engineer'',
                                ''devsecops_engineer'']
            then 0.010 else 0.008)
     in 1.0 + np_clip (delta * leverage) (- 0.05) 0.08)"

section \<open>Normalisation\<close>

text \<open>
  \<^verbatim>\<open>if r in ROLE_ALIASES: return ROLE_ALIASES[r]\<close> is one lookup whose miss falls
  through to the loop. The argument is a string, for which \<^verbatim>\<open>role or ""\<close> is the
  string itself.
\<close>

definition normalize_role :: "string \<Rightarrow> string" where
  "normalize_role rl =
    (let r = lower (strip rl)
     in case map_of ROLE_ALIASES r of
          Some v \<Rightarrow> v
        | None \<Rightarrow>
           (case first_contained ROLE_ALIASES r of
              Some v \<Rightarrow> v
            | None \<Rightarrow>
               if dict_has BASELINES_2024 (replace_char (CHR '' '') (CHR ''_'') r)
               then replace_char (CHR '' '') (CHR ''_'') r
               else ''cybersecurity_engineer''))"

definition normalize_level :: "string \<Rightarrow> string" where
  "normalize_level lv =
    (let l = lower (strip lv)
     in case map_of LEVEL_ALIASES l of
          Some v \<Rightarrow> v
        | None \<Rightarrow>
           (case first_contained LEVEL_ALIASES l of
              Some v \<Rightarrow> v
            | None \<Rightarrow> ''mid''))"

section \<open>Ensemble\<close>

text \<open>\<^verbatim>\<open>x or y\<close> for an optional string \<open>x\<close>: \<open>None\<close> and the empty string are falsy.\<close>

definition or_else :: "string option \<Rightarrow> string \<Rightarrow> string" where
  "or_else x y = (case x of None \<Rightarrow> y | Some s \<Rightarrow> if s = [] then y else s)"

text \<open>\<^verbatim>\<open>weights or DEFAULT_WEIGHTS.copy()\<close>: \<open>None\<close> and the empty dictionary are falsy.\<close>

definition weights_or_default :: "(string, real) dict option \<Rightarrow> (string, real) dict" where
  "weights_or_default weights =
    (case weights of None \<Rightarrow> DEFAULT_WEIGHTS
     | Some ws \<Rightarrow> if ws = [] then DEFAULT_WEIGHTS else ws)"

text \<open>
  The first part of \<^verbatim>\<open>predict_2026\<close> (normalisation and enrichment from the job
  description): the role key, the level and the skills the rest of the function works on.
\<close>

definition enrich :: "PredictionInput \<Rightarrow> string \<times> string \<times> string list" where
  "enrich inp =
    (let role_key = normalize_role (role inp);
         lvl = normalize_level (level inp);
         sk = skills inp
     in case job_description inp of
          None \<Rightarrow> (role_key, lvl, sk)
        | Some d \<Rightarrow>
           if d = [] then (role_key, lvl, sk)
           else
             (let ext = extract_from_text d
              in (or_else (ext_role_key ext) role_key,
                  or_else (ext_level ext) lvl,
                  sorted_set (sk @ ext_skills ext))))"

definition predict_2026 ::
    "PredictionInput \<Rightarrow> (string, real) dict option \<Rightarrow> py_error + PredictionBreakdown" where
  "predict_2026 inp weights =
    (let w = weights_or_default weights;
         (role_key, lvl, sk) = enrich inp;
         role_key = (if \<not> dict_has BASELINES_2024 role_key
                     then ''cybersecurity_engineer'' else role_key)
     in case dict_index BASELINES_2024 role_key of Inl e \<Rightarrow> Inl e | Inr by_level \<Rightarrow>
        let lvl = (if \<not> dict_has by_level lvl then ''mid'' else lvl)
        in case dict_index by_level lvl of Inl e \<Rightarrow> Inl e | Inr (base_low, base_high) \<Rightarrow>
           case apply_cagr base_low base_high role_key 2 of Inl e \<Rightarrow> Inl e
           | Inr (cg_low, cg_high) \<Rightarrow>
           let (infl_low, infl_high) = apply_inflation cg_low cg_high;
               s_mult = compute_skills_multiplier sk
           in case compute_geo_multiplier (state inp) of Inl e \<Rightarrow> Inl e | Inr g_mult \<Rightarrow>
              let r_mult = regression_adjustment role_key lvl (years_experience inp);
                  a_low = infl_low; a_high = infl_high;
                  b_low = infl_low * s_mult; b_high = infl_high * s_mult;
                  c_low = infl_low * g_mult; c_high = infl_high * g_mult;
                  d_low = infl_low * s_mult * g_mult; d_high = infl_high * s_mult * g_mult;
                  e_low = d_low * r_mult; e_high = d_high * r_mult
              in case dict_index w ''skills'' of Inl e \<Rightarrow> Inl e | Inr w_sk \<Rightarrow>
                 case dict_index w ''geo'' of Inl e \<Rightarrow> Inl e | Inr w_geo \<Rightarrow>
                 case dict_index w ''regression'' of Inl e \<Rightarrow> Inl e | Inr w_reg \<Rightarrow>
                 let low = (1 - w_sk) * a_low + w_sk * b_low;
                     high = (1 - w_sk) * a_high + w_sk * b_high;
                     low = (1 - w_geo) * low + w_geo * d_low;
                     high = (1 - w_geo) * high + w_geo * d_high;
                     low = (1 - w_reg) * low + w_reg * e_low;
                     high = (1 - w_reg) * high + w_reg * e_high;
                     mid = (low + high) / 2.0
                 in Inr \<lparr>baseline_low = base_low, baseline_high = base_high,
                         cagr_low = cg_low, cagr_high = cg_high,
                         inflation_low = infl_low, inflation_high = infl_high,
                         skills_multiplier = s_mult, geo_multiplier = g_mult,
                         regression_adjustment_field = r_mult,
                         final_low = low, final_mid = mid, final_high = high\<rparr>)"

section \<open>The regression multiplier as the specification words it\<close>

text \<open>
  \<open>clamp\<close>, the target years per level and the leverage per role, written from the
  specification's sentence, to be compared with \<open>regression_adjustment\<close>.
\<close>

definition spec_clamp :: "real \<Rightarrow> real \<Rightarrow> real \<Rightarrow> real" where
  "spec_clamp x lo hi = (if x < lo then lo else if hi < x then hi else x)"

definition spec_target :: "string \<Rightarrow> real" where
  "spec_target lvl =
    (if lvl = ''entry'' then 1 else if lvl = ''mid'' then 4 else if lvl = ''senior'' then 8
     else 4)"

definition spec_leverage :: "string \<Rightarrow> real" where
  "spec_leverage role_key =
    (if role_key = ''security_architect'' \<or> role_key = ''cloud_security_engineer''
        \<or> role_key = ''devsecops_engineer''
     then 0.010 else 0.008)"

section \<open>The inputs of the demonstration\<close>

text \<open>
  Two inputs of \<^verbatim>\<open>demo()\<close>: the third example with its job description, and the
  first example without one.
\<close>

definition demo_text :: string where
  "demo_text = ''Entry SOC analyst with EDR and SIEM experience. Security+ is a plus.''"

definition demo_soc :: PredictionInput where
  "demo_soc = \<lparr>role = ''SOC Analyst'', level = ''Entry'', years_experience = 1,
      state = ''REMOTE'', skills = [''siem'', ''edr'', ''security_plus''],
      job_description = Some demo_text\<rparr>"

definition demo_engineer :: PredictionInput where
  "demo_engineer = \<lparr>role = ''Cybersecurity Engineer'', level = ''Mid'', years_experience = 4,
      state = ''TX'', skills = [''siem'', ''soar'', ''zero_trust'', ''cissp''],
      job_description = None\<rparr>"

section \<open>Properties of the skills multiplier\<close>

lemma skills_total_sum: "skills_total acc sk = acc + sum_list (map table_premium sk)"
  by (induction sk arbitrary: acc) (simp_all add: dict_get_def table_premium_def)

lemma SKILL_PREMIUM_nonneg: "(k, p) \<in> set SKILL_PREMIUM \<Longrightarrow> 0 \<le> p"
  unfolding SKILL_PREMIUM_def by auto

lemma table_premium_nonneg: "0 \<le> table_premium s"
proof (cases "map_of SKILL_PREMIUM s")
  case None
  then show ?thesis by (simp add: table_premium_def)
next
  case (Some p)
  then have "(s, p) \<in> set SKILL_PREMIUM" by (rule map_of_SomeD)
  then have "0 \<le> p" by (rule SKILL_PREMIUM_nonneg)
  with Some show ?thesis by (simp add: table_premium_def)
qed

lemma premium_sum_nonneg: "0 \<le> sum_list (map table_premium sk)"
  by (rule sum_list_nonneg) (auto simp: table_premium_nonneg)

lemma compute_skills_multiplier_eq:
  "compute_skills_multiplier sk = 1 + 0.85 * min (sum_list (map table_premium sk)) 0.25"
  by (simp add: compute_skills_multiplier_def skills_total_sum)

lemma compute_skills_multiplier_bounds:
  "1 \<le> compute_skills_multiplier sk" "compute_skills_multiplier sk \<le> 1.2125"
  using premium_sum_nonneg [of sk] by (simp_all add: compute_skills_multiplier_eq min_def)

text \<open>
  C2. For every list of skill tokens the skills multiplier is exactly
  \<open>1 + 0.85 * min (sum of the table premiums) 0.25\<close>, a token absent from the premium
  table contributing zero, and so the multiplier lies between 1.0 and 1.2125.
\<close>

theorem C2_skills_multiplier_formula:
  "compute_skills_multiplier sk = 1 + 0.85 * min (sum_list (map table_premium sk)) 0.25
   \<and> table_premium s = (if dict_has SKILL_PREMIUM s then dict_get SKILL_PREMIUM s 0 else 0)
   \<and> 1.0 \<le> compute_skills_multiplier sk \<and> compute_skills_multiplier sk \<le> 1.2125"
proof -
  have "table_premium s = (if dict_has SKILL_PREMIUM s then dict_get SKILL_PREMIUM s 0 else 0)"
    by (simp add: table_premium_def dict_has_def dict_get_def split: option.splits)
  then show ?thesis
    using compute_skills_multiplier_eq [of sk] compute_skills_multiplier_bounds [of sk]
    by simp
qed

text \<open>
  C8. Adding a skill token to a skills collection, at any position of the list, never
  lowers the skills multiplier, and the multiplier never exceeds 1.2125.
\<close>

theorem C8_skills_multiplier_monotone:
  "compute_skills_multiplier (sk @ sk') \<le> compute_skills_multiplier (sk @ x # sk')
   \<and> compute_skills_multiplier (sk @ x # sk') \<le> 1.2125"
proof -
  have "sum_list (map table_premium (sk @ sk')) \<le> sum_list (map table_premium (sk @ x # sk'))"
    using table_premium_nonneg [of x] by simp
  then have "compute_skills_multiplier (sk @ sk') \<le> compute_skills_multiplier (sk @ x # sk')"
    unfolding compute_skills_multiplier_eq by (simp add: min_def)
  then show ?thesis
    using compute_skills_multiplier_bounds(2) [of "sk @ x # sk'"] by simp
qed


section \<open>Dictionaries and tables\<close>

lemma dict_index_Inr_iff: "dict_index d k = Inr v \<longleftrightarrow> map_of d k = Some v"
  by (simp add: dict_index_def split: option.splits)

lemma dict_has_iff: "dict_has d k \<longleftrightarrow> map_of d k \<noteq> None"
  by (simp add: dict_has_def split: option.splits)

lemma baseline_has_default: "dict_has BASELINES_2024 ''cybersecurity_engineer''"
  by (simp add: dict_has_def BASELINES_2024_def)

lemma baseline_table_cases:
  assumes "map_of BASELINES_2024 rk = Some bl"
  shows "\<exists>a b c d e f. bl = [(''entry'', (a, b)), (''mid'', (c, d)), (''senior'', (e, f))]
           \<and> 0 < a \<and> a \<le> b \<and> 0 < c \<and> c \<le> d \<and> 0 < e \<and> e \<le> f"
proof -
  from assms have "(rk, bl) \<in> set BASELINES_2024" by (rule map_of_SomeD)
  then show ?thesis unfolding BASELINES_2024_def by auto
qed

lemma baseline_has_mid:
  assumes "map_of BASELINES_2024 rk = Some bl"
  shows "dict_has bl ''mid''"
  using baseline_table_cases [OF assms] by (auto simp: dict_has_def)

lemma baseline_pair_ordered:
  assumes "map_of BASELINES_2024 rk = Some bl" and "map_of bl lvl = Some (lo, hi)"
  shows "0 < lo \<and> lo \<le> hi"
  using baseline_table_cases [OF assms(1)] assms(2) by (auto split: if_splits)

lemma CAGR_nonneg: "0 \<le> dict_get CAGR_BY_ROLE rk 0.05"
proof (cases "map_of CAGR_BY_ROLE rk")
  case None
  then show ?thesis by (simp add: dict_get_def)
next
  case (Some v)
  then have "(rk, v) \<in> set CAGR_BY_ROLE" by (rule map_of_SomeD)
  then have "0 \<le> v" unfolding CAGR_BY_ROLE_def by auto
  with Some show ?thesis by (simp add: dict_get_def)
qed

lemma apply_cagr_Inr:
  "apply_cagr lo hi rk 2 =
     Inr (lo * (1 + dict_get CAGR_BY_ROLE rk 0.05)\<^sup>2, hi * (1 + dict_get CAGR_BY_ROLE rk 0.05)\<^sup>2)"
  by (simp add: apply_cagr_def dict_index_def CAGR_BY_ROLE_def float_pow_def Let_def)

lemma GEO_pos: "0 < dict_get GEO_MULTIPLIER key 1"
proof (cases "map_of GEO_MULTIPLIER key")
  case None
  then show ?thesis by (simp add: dict_get_def)
next
  case (Some v)
  then have "(key, v) \<in> set GEO_MULTIPLIER" by (rule map_of_SomeD)
  then have "0 < v" unfolding GEO_MULTIPLIER_def by auto
  with Some show ?thesis by (simp add: dict_get_def)
qed

lemma compute_geo_multiplier_Inr:
  "compute_geo_multiplier st = Inr (dict_get GEO_MULTIPLIER (upper (strip st)) 1)"
  by (simp add: compute_geo_multiplier_def dict_index_def GEO_MULTIPLIER_def Let_def)

lemma regression_adjustment_bounds:
  "0.95 \<le> regression_adjustment rk lvl y" "regression_adjustment rk lvl y \<le> 1.08"
  by (simp_all add: regression_adjustment_def np_clip_def Let_def min_def max_def)

section \<open>The result of the ensemble\<close>

lemma predict_2026_Inr:
  assumes W: "dict_index (weights_or_default weights) ''skills'' = Inr w_sk"
             "dict_index (weights_or_default weights) ''geo'' = Inr w_geo"
             "dict_index (weights_or_default weights) ''regression'' = Inr w_reg"
  obtains b rk lvl bl where
    "predict_2026 inp weights = Inr b"
    "rk = (if dict_has BASELINES_2024 (fst (enrich inp)) then fst (enrich inp)
           else ''cybersecurity_engineer'')"
    "map_of BASELINES_2024 rk = Some bl"
    "lvl = (if dict_has bl (fst (snd (enrich inp))) then fst (snd (enrich inp)) else ''mid'')"
    "map_of bl lvl = Some (baseline_low b, baseline_high b)"
    "apply_cagr (baseline_low b) (baseline_high b) rk 2 = Inr (cagr_low b, cagr_high b)"
    "apply_inflation (cagr_low b) (cagr_high b) = (inflation_low b, inflation_high b)"
    "skills_multiplier b = compute_skills_multiplier (snd (snd (enrich inp)))"
    "compute_geo_multiplier (state inp) = Inr (geo_multiplier b)"
    "regression_adjustment_field b = regression_adjustment rk lvl (years_experience inp)"
    "final_low b =
       (1 - w_reg) * ((1 - w_geo) * ((1 - w_sk) * inflation_low b
                                      + w_sk * (inflation_low b * skills_multiplier b))
                      + w_geo * (inflation_low b * skills_multiplier b * geo_multiplier b))
       + w_reg * (inflation_low b * skills_multiplier b * geo_multiplier b
                  * regression_adjustment_field b)"
    "final_high b =
       (1 - w_reg) * ((1 - w_geo) * ((1 - w_sk) * inflation_high b
                                      + w_sk * (inflation_high b * skills_multiplier b))
                      + w_geo * (inflation_high b * skills_multiplier b * geo_multiplier b))
       + w_reg * (inflation_high b * skills_multiplier b * geo_multiplier b
                  * regression_adjustment_field b)"
    "final_mid b = (final_low b + final_high b) / 2"
proof -
  obtain rk0 lvl0 sk where E: "enrich inp = (rk0, lvl0, sk)"
    by (cases "enrich inp") auto
  define rk where "rk = (if \<not> dict_has BASELINES_2024 rk0 then ''cybersecurity_engineer'' else rk0)"
  have "dict_has BASELINES_2024 rk"
    using baseline_has_default by (simp add: rk_def)
  then obtain bl where BL: "map_of BASELINES_2024 rk = Some bl"
    by (auto simp: dict_has_iff)
  define lvl where "lvl = (if \<not> dict_has bl lvl0 then ''mid'' else lvl0)"
  have "dict_has bl lvl"
    using baseline_has_mid [OF BL] by (simp add: lvl_def)
  then obtain lo hi where P: "map_of bl lvl = Some (lo, hi)"
    by (auto simp: dict_has_iff)
  have I1: "dict_index BASELINES_2024 rk = Inr bl"
    using BL by (simp add: dict_index_Inr_iff)
  have I2: "dict_index bl lvl = Inr (lo, hi)"
    using P by (simp add: dict_index_Inr_iff)
  define f where "f = (1 + dict_get CAGR_BY_ROLE rk 0.05)\<^sup>2"
  define g where "g = dict_get GEO_MULTIPLIER (upper (strip (state inp))) 1"
  define s where "s = compute_skills_multiplier sk"
  define r where "r = regression_adjustment rk lvl (years_experience inp)"
  define il where "il = lo * f * INFLATION_2024_TO_2026"
  define ih where "ih = hi * f * INFLATION_2024_TO_2026"
  define b where "b = \<lparr>baseline_low = lo, baseline_high = hi,
      cagr_low = lo * f, cagr_high = hi * f,
      inflation_low = il, inflation_high = ih,
      skills_multiplier = s, geo_multiplier = g, regression_adjustment_field = r,
      final_low = (1 - w_reg) * ((1 - w_geo) * ((1 - w_sk) * il + w_sk * (il * s))
                     + w_geo * (il * s * g)) + w_reg * (il * s * g * r),
      final_mid = ((1 - w_reg) * ((1 - w_geo) * ((1 - w_sk) * il + w_sk * (il * s))
                     + w_geo * (il * s * g)) + w_reg * (il * s * g * r)
                  + ((1 - w_reg) * ((1 - w_geo) * ((1 - w_sk) * ih + w_sk * (ih * s))
                     + w_geo * (ih * s * g)) + w_reg * (ih * s * g * r))) / 2,
      final_high = (1 - w_reg) * ((1 - w_geo) * ((1 - w_sk) * ih + w_sk * (ih * s))
                     + w_geo * (ih * s * g)) + w_reg * (ih * s * g * r)\<rparr>"
  have C: "apply_cagr lo hi rk 2 = Inr (lo * f, hi * f)"
    by (simp add: apply_cagr_Inr f_def)
  have A: "apply_inflation (lo * f) (hi * f) = (il, ih)"
    by (simp add: apply_inflation_def il_def ih_def)
  have GM: "compute_geo_multiplier (state inp) = Inr g"
    by (simp add: compute_geo_multiplier_Inr g_def)
  have R: "predict_2026 inp weights = Inr b"
    unfolding predict_2026_def Let_def E prod.case
    unfolding rk_def [symmetric] I1 sum.case
    unfolding lvl_def [symmetric] I2 sum.case prod.case C A GM W
    unfolding s_def [symmetric] r_def [symmetric] b_def
    by simp
  have F: "baseline_low b = lo" "baseline_high b = hi"
    "skills_multiplier b = s" "geo_multiplier b = g" "regression_adjustment_field b = r"
    "cagr_low b = lo * f" "cagr_high b = hi * f"
    "inflation_low b = il" "inflation_high b = ih"
    by (simp_all add: b_def)
  have G: "final_low b =
       (1 - w_reg) * ((1 - w_geo) * ((1 - w_sk) * inflation_low b
                                      + w_sk * (inflation_low b * skills_multiplier b))
                      + w_geo * (inflation_low b * skills_multiplier b * geo_multiplier b))
       + w_reg * (inflation_low b * skills_multiplier b * geo_multiplier b
                  * regression_adjustment_field b)"
    "final_high b =
       (1 - w_reg) * ((1 - w_geo) * ((1 - w_sk) * inflation_high b
                                      + w_sk * (inflation_high b * skills_multiplier b))
                      + w_geo * (inflation_high b * skills_multiplier b * geo_multiplier b))
       + w_reg * (inflation_high b * skills_multiplier b * geo_multiplier b
                  * regression_adjustment_field b)"
    "final_mid b = (final_low b + final_high b) / 2"
    by (simp_all add: b_def)
  show thesis
  proof (rule that [of b rk bl lvl])
    show "predict_2026 inp weights = Inr b" by (rule R)
    show "rk = (if dict_has BASELINES_2024 (fst (enrich inp)) then fst (enrich inp)
           else ''cybersecurity_engineer'')" by (simp add: rk_def E)
    show "map_of BASELINES_2024 rk = Some bl" by (rule BL)
    show "lvl = (if dict_has bl (fst (snd (enrich inp))) then fst (snd (enrich inp)) else ''mid'')"
      by (simp add: lvl_def E)
    show "map_of bl lvl = Some (baseline_low b, baseline_high b)" using P F by simp
    show "apply_cagr (baseline_low b) (baseline_high b) rk 2 = Inr (cagr_low b, cagr_high b)"
      using F C by simp
    show "apply_inflation (cagr_low b) (cagr_high b) = (inflation_low b, inflation_high b)"
      using F A by simp
    show "skills_multiplier b = compute_skills_multiplier (snd (snd (enrich inp)))"
      using F by (simp add: E s_def)
    show "compute_geo_multiplier (state inp) = Inr (geo_multiplier b)"
      using F GM by simp
    show "regression_adjustment_field b = regression_adjustment rk lvl (years_experience inp)"
      using F by (simp add: r_def)
  qed (rule G)+
qed

section \<open>Strings, normalisation and regression\<close>

lemma startswith_iff: "startswith s k \<longleftrightarrow> (\<exists>r. s = k @ r)"
  by (induction s k rule: startswith.induct) auto

lemma str_contains_iff: "str_contains k t \<longleftrightarrow> (\<exists>p s. t = p @ k @ s)"
proof (induction t)
  case Nil
  then show ?case by auto
next
  case (Cons c cs)
  show ?case
  proof
    assume "str_contains k (c # cs)"
    then consider "startswith (c # cs) k" | "str_contains k cs" by auto
    then show "\<exists>p s. c # cs = p @ k @ s"
    proof cases
      case 1
      then obtain r where "c # cs = k @ r" by (auto simp: startswith_iff)
      then have "c # cs = [] @ k @ r" by simp
      then show ?thesis by blast
    next
      case 2
      then obtain p s where "cs = p @ k @ s" using Cons.IH by auto
      then have "c # cs = (c # p) @ k @ s" by simp
      then show ?thesis by blast
    qed
  next
    assume "\<exists>p s. c # cs = p @ k @ s"
    then obtain p s where ps: "c # cs = p @ k @ s" by auto
    show "str_contains k (c # cs)"
    proof (cases p)
      case Nil
      with ps have "startswith (c # cs) k" by (auto simp: startswith_iff)
      then show ?thesis by simp
    next
      case (Cons a p')
      with ps have "cs = p' @ k @ s" by simp
      then have "str_contains k cs" using Cons.IH by blast
      then show ?thesis by simp
    qed
  qed
qed

lemma first_contained_None_iff:
  "first_contained d t = None \<longleftrightarrow> (\<forall>k\<in>fst ` set d. \<not> str_contains k t)"
  by (induction d t rule: first_contained.induct) auto

lemma first_contained_value: "first_contained d t = Some v \<Longrightarrow> v \<in> snd ` set d"
  by (induction d t rule: first_contained.induct) (auto split: if_splits)

lemma first_word_match_value: "first_word_match d t = Some v \<Longrightarrow> v \<in> snd ` set d"
  by (induction d t rule: first_word_match.induct) (auto split: if_splits)

lemma map_of_value: "map_of d k = Some v \<Longrightarrow> v \<in> snd ` set d"
  by (force dest: map_of_SomeD)

lemma str_contains_self: "str_contains k k"
  by (cases k) (auto simp: startswith_iff)

lemma role_alias_value:
  assumes "v \<in> snd ` set ROLE_ALIASES"
  shows "v \<noteq> []" and "dict_has BASELINES_2024 v"
  using assms unfolding ROLE_ALIASES_def by (auto simp: dict_has_def BASELINES_2024_def)

lemma level_alias_value:
  assumes "v \<in> snd ` set LEVEL_ALIASES"
  shows "v \<noteq> []" and "v = ''entry'' \<or> v = ''mid'' \<or> v = ''senior''"
  using assms unfolding LEVEL_ALIASES_def by auto

lemma baseline_has_level:
  assumes "map_of BASELINES_2024 rk = Some bl"
    and "lvl = ''entry'' \<or> lvl = ''mid'' \<or> lvl = ''senior''"
  shows "dict_has bl lvl"
  using baseline_table_cases [OF assms(1)] assms(2) by (auto simp: dict_has_def)

lemma normalize_role_valid: "dict_has BASELINES_2024 (normalize_role rl)"
proof (cases "map_of ROLE_ALIASES (lower (strip rl))")
  case (Some v)
  then have "v \<in> snd ` set ROLE_ALIASES" by (rule map_of_value)
  then have "dict_has BASELINES_2024 v" by (rule role_alias_value)
  with Some show ?thesis by (simp add: normalize_role_def)
next
  case None
  show ?thesis
  proof (cases "first_contained ROLE_ALIASES (lower (strip rl))")
    case (Some v)
    then have "v \<in> snd ` set ROLE_ALIASES" by (rule first_contained_value)
    then have "dict_has BASELINES_2024 v" by (rule role_alias_value)
    with None Some show ?thesis by (simp add: normalize_role_def)
  next
    case N: None
    with None show ?thesis
      using baseline_has_default by (simp add: normalize_role_def Let_def)
  qed
qed

lemma normalize_level_valid:
  "normalize_level lv = ''entry'' \<or> normalize_level lv = ''mid'' \<or> normalize_level lv = ''senior''"
proof (cases "map_of LEVEL_ALIASES (lower (strip lv))")
  case (Some v)
  then have "v \<in> snd ` set LEVEL_ALIASES" by (rule map_of_value)
  then have "v = ''entry'' \<or> v = ''mid'' \<or> v = ''senior''" by (rule level_alias_value)
  with Some show ?thesis by (simp add: normalize_level_def)
next
  case None
  show ?thesis
  proof (cases "first_contained LEVEL_ALIASES (lower (strip lv))")
    case (Some v)
    then have "v \<in> snd ` set LEVEL_ALIASES" by (rule first_contained_value)
    then have "v = ''entry'' \<or> v = ''mid'' \<or> v = ''senior''" by (rule level_alias_value)
    with None Some show ?thesis by (simp add: normalize_level_def)
  next
    case N: None
    with None show ?thesis by (simp add: normalize_level_def)
  qed
qed

text \<open>
  C6. For every role key, level and years of experience the regression multiplier is
  \<open>1 + clamp ((years - target) * leverage) (-0.05) 0.08\<close>, with target 1, 4, 8 for
  entry, mid, senior and 4 for any other level, and leverage 0.010 for the three
  experience-sensitive roles and 0.008 otherwise; it lies between 0.95 and 1.08.
\<close>

theorem C6_regression_adjustment_formula:
  "regression_adjustment role_key lvl y =
      1 + spec_clamp ((y - spec_target lvl) * spec_leverage role_key) (- 0.05) 0.08
   \<and> 0.95 \<le> regression_adjustment role_key lvl y
   \<and> regression_adjustment role_key lvl y \<le> 1.08"
  by (simp add: regression_adjustment_def np_clip_def spec_clamp_def spec_target_def
      spec_leverage_def dict_get_def Let_def min_def max_def)

text \<open>
  C5. A role whose stripped, lowercased form equals no alias, contains no alias and,
  with spaces replaced by underscores, is no baseline key normalises to
  \<open>cybersecurity_engineer\<close>; a level whose stripped, lowercased form equals and
  contains no level alias normalises to \<open>mid\<close>; a location whose stripped, uppercased
  code is not in the geo table, the empty string among them, has multiplier 1.0. None
  of the three raises.
\<close>

theorem C5_unknown_defaults:
  "((\<forall>k\<in>fst ` set ROLE_ALIASES. lower (strip rl) \<noteq> k \<and> \<not> str_contains k (lower (strip rl)))
      \<and> \<not> dict_has BASELINES_2024 (replace_char (CHR '' '') (CHR ''_'') (lower (strip rl)))
     \<longrightarrow> normalize_role rl = ''cybersecurity_engineer'')
   \<and> ((\<forall>k\<in>fst ` set LEVEL_ALIASES. lower (strip lv) \<noteq> k \<and> \<not> str_contains k (lower (strip lv)))
     \<longrightarrow> normalize_level lv = ''mid'')
   \<and> (\<not> dict_has GEO_MULTIPLIER (upper (strip st)) \<longrightarrow> compute_geo_multiplier st = Inr 1.0)
   \<and> compute_geo_multiplier [] = Inr 1.0"
proof (intro conjI impI)
  assume h: "(\<forall>k\<in>fst ` set ROLE_ALIASES. lower (strip rl) \<noteq> k \<and> \<not> str_contains k (lower (strip rl)))
      \<and> \<not> dict_has BASELINES_2024 (replace_char (CHR '' '') (CHR ''_'') (lower (strip rl)))"
  then have "map_of ROLE_ALIASES (lower (strip rl)) = None"
    by (auto simp: map_of_eq_None_iff)
  moreover from h have "first_contained ROLE_ALIASES (lower (strip rl)) = None"
    by (simp add: first_contained_None_iff)
  ultimately show "normalize_role rl = ''cybersecurity_engineer''"
    using h by (simp add: normalize_role_def)
next
  assume h: "\<forall>k\<in>fst ` set LEVEL_ALIASES. lower (strip lv) \<noteq> k \<and> \<not> str_contains k (lower (strip lv))"
  then have "map_of LEVEL_ALIASES (lower (strip lv)) = None"
    by (auto simp: map_of_eq_None_iff)
  moreover from h have "first_contained LEVEL_ALIASES (lower (strip lv)) = None"
    by (simp add: first_contained_None_iff)
  ultimately show "normalize_level lv = ''mid''"
    by (simp add: normalize_level_def)
next
  assume "\<not> dict_has GEO_MULTIPLIER (upper (strip st))"
  then show "compute_geo_multiplier st = Inr 1.0"
    by (simp add: compute_geo_multiplier_Inr dict_has_iff dict_get_def)
next
  show "compute_geo_multiplier [] = Inr 1.0"
    by (simp add: compute_geo_multiplier_Inr strip_def upper_def dict_get_def GEO_MULTIPLIER_def)
qed

theorem C5_unknown_defaults_witness:
  "first_contained ROLE_ALIASES (lower (strip ''Data Wizard'')) = None
   \<and> \<not> dict_has BASELINES_2024 (replace_char (CHR '' '') (CHR ''_'') (lower (strip ''Data Wizard'')))
   \<and> normalize_role ''Data Wizard'' = ''cybersecurity_engineer''
   \<and> first_contained LEVEL_ALIASES (lower (strip ''Guru'')) = None
   \<and> normalize_level ''Guru'' = ''mid''
   \<and> \<not> dict_has GEO_MULTIPLIER (upper (strip ''zz''))
   \<and> compute_geo_multiplier ''zz'' = Inr 1.0"
proof -
  have r: "lower (strip ''Data Wizard'') = ''data wizard''"
    by (simp add: lower_def strip_def is_space_def lower_char_def dict_get_def)
  have l: "lower (strip ''Guru'') = ''guru''"
    by (simp add: lower_def strip_def is_space_def lower_char_def dict_get_def)
  have u: "upper (strip ''zz'') = ''ZZ''"
    by (simp add: upper_def strip_def is_space_def upper_char_def dict_get_def)
  have h1: "\<forall>k\<in>fst ` set ROLE_ALIASES. lower (strip ''Data Wizard'') \<noteq> k
        \<and> \<not> str_contains k (lower (strip ''Data Wizard''))"
    unfolding r by (simp add: ROLE_ALIASES_def)
  have h2: "\<not> dict_has BASELINES_2024 (replace_char (CHR '' '') (CHR ''_'') (lower (strip ''Data Wizard'')))"
    unfolding r by (simp add: dict_has_def BASELINES_2024_def replace_char_def)
  have h3: "\<forall>k\<in>fst ` set LEVEL_ALIASES. lower (strip ''Guru'') \<noteq> k
        \<and> \<not> str_contains k (lower (strip ''Guru''))"
    unfolding l by (simp add: LEVEL_ALIASES_def)
  have h4: "\<not> dict_has GEO_MULTIPLIER (upper (strip ''zz''))"
    unfolding u by (simp add: dict_has_def GEO_MULTIPLIER_def)
  have n1: "first_contained ROLE_ALIASES (lower (strip ''Data Wizard'')) = None"
    using h1 by (simp add: first_contained_None_iff)
  have n2: "first_contained LEVEL_ALIASES (lower (strip ''Guru'')) = None"
    using h3 by (simp add: first_contained_None_iff)
  show ?thesis
    using C5_unknown_defaults [of "''Data Wizard''" "''Guru''" "''zz''"] h1 h2 h3 h4 n1 n2
    by blast
qed

section \<open>Weights and totality\<close>

lemma default_weights_index:
  "dict_index (weights_or_default None) ''skills'' = Inr 0.20"
  "dict_index (weights_or_default None) ''geo'' = Inr 0.20"
  "dict_index (weights_or_default None) ''regression'' = Inr 0.20"
  by (simp_all add: weights_or_default_def DEFAULT_WEIGHTS_def dict_index_def)

lemma given_weights_index:
  assumes "dict_index ws k = Inr v"
  shows "dict_index (weights_or_default (Some ws)) k = Inr v"
proof -
  from assms have "ws \<noteq> []" by (auto simp: dict_index_def)
  with assms show ?thesis by (simp add: weights_or_default_def)
qed

lemma blend_factor_nonneg:
  fixes s g r ws wg wr :: real
  assumes "0 \<le> s" "0 \<le> g" "0 \<le> r" "0 \<le> ws" "ws \<le> 1" "0 \<le> wg" "wg \<le> 1" "0 \<le> wr" "wr \<le> 1"
  shows "0 \<le> (1 - wr) * ((1 - wg) * ((1 - ws) + ws * s) + wg * (s * g)) + wr * (s * g * r)"
proof -
  have a: "0 \<le> (1 - ws) + ws * s" using assms by simp
  have b: "0 \<le> (1 - wg) * ((1 - ws) + ws * s)" using a assms by simp
  have c: "0 \<le> wg * (s * g)" using assms by simp
  have d: "0 \<le> (1 - wr) * ((1 - wg) * ((1 - ws) + ws * s) + wg * (s * g))"
    using b c assms by simp
  have e: "0 \<le> wr * (s * g * r)" using assms by simp
  from d e show ?thesis by simp
qed

lemma blend_factor_eq:
  fixes x s g r ws wg wr :: real
  shows "(1 - wr) * ((1 - wg) * ((1 - ws) * x + ws * (x * s)) + wg * (x * s * g))
           + wr * (x * s * g * r)
         = x * ((1 - wr) * ((1 - wg) * ((1 - ws) + ws * s) + wg * (s * g)) + wr * (s * g * r))"
  by (simp add: algebra_simps)

section \<open>Inverting a successful call\<close>

lemma predict_2026_Inr_weights:
  assumes "predict_2026 inp weights = Inr b"
  shows "\<exists>w_sk w_geo w_reg.
           dict_index (weights_or_default weights) ''skills'' = Inr w_sk
         \<and> dict_index (weights_or_default weights) ''geo'' = Inr w_geo
         \<and> dict_index (weights_or_default weights) ''regression'' = Inr w_reg"
proof -
  have 1: "\<exists>v. dict_index (weights_or_default weights) ''skills'' = Inr v"
    using assms unfolding predict_2026_def Let_def
    by (cases "dict_index (weights_or_default weights) ''skills''")
       (auto split: sum.splits prod.splits)
  have 2: "\<exists>v. dict_index (weights_or_default weights) ''geo'' = Inr v"
    using assms unfolding predict_2026_def Let_def
    by (cases "dict_index (weights_or_default weights) ''geo''")
       (auto split: sum.splits prod.splits)
  have 3: "\<exists>v. dict_index (weights_or_default weights) ''regression'' = Inr v"
    using assms unfolding predict_2026_def Let_def
    by (cases "dict_index (weights_or_default weights) ''regression''")
       (auto split: sum.splits prod.splits)
  from 1 2 3 show ?thesis by blast
qed

lemma predict_2026_skills:
  assumes "predict_2026 inp weights = Inr b"
  shows "skills_multiplier b = compute_skills_multiplier (snd (snd (enrich inp)))"
proof -
  obtain w_sk w_geo w_reg where W:
    "dict_index (weights_or_default weights) ''skills'' = Inr w_sk"
    "dict_index (weights_or_default weights) ''geo'' = Inr w_geo"
    "dict_index (weights_or_default weights) ''regression'' = Inr w_reg"
    using predict_2026_Inr_weights [OF assms] by blast
  obtain b' rk lvl bl where "predict_2026 inp weights = Inr b'"
    and "skills_multiplier b' = compute_skills_multiplier (snd (snd (enrich inp)))"
    by (rule predict_2026_Inr [OF W, of inp])
  with assms show ?thesis by simp
qed

lemma predict_2026_default_total: "\<exists>b. predict_2026 inp None = Inr b"
proof -
  obtain b :: PredictionBreakdown and rk lvl and bl :: "(string, real \<times> real) dict"
    where "predict_2026 inp None = Inr b"
    by (rule predict_2026_Inr [OF default_weights_index, of inp])
  then show ?thesis by blast
qed

lemma enrich_no_description:
  assumes "job_description inp = None \<or> job_description inp = Some []"
  shows "enrich inp = (normalize_role (role inp), normalize_level (level inp), skills inp)"
  using assms by (auto simp: enrich_def)

lemma siem_twice:
  "compute_skills_multiplier [''siem'', ''siem''] = 1.051"
  "compute_skills_multiplier (remdups [''siem'', ''siem'']) = 1.0255"
  by (simp_all add: compute_skills_multiplier_def dict_get_def SKILL_PREMIUM_def)

text \<open>
  C4. With the default weight configuration \<open>predict_2026\<close> returns a breakdown for
  every input: no dictionary indexing raises, the role key and the level being checked
  against the baseline table before it is indexed.
\<close>

theorem C4_predict_total: "\<exists>b. predict_2026 inp None = Inr b"
  by (rule predict_2026_default_total)

section \<open>The weighted blend\<close>

text \<open>
  C1. Whenever the weight configuration in force has skills, geo and regression weights
  in \<open>[0,1]\<close>, \<open>predict_2026\<close> returns a breakdown whose baseline pair is ordered
  (every pair of the table is) and whose final figures satisfy
  \<open>final_low \<le> final_mid \<le> final_high\<close>.
\<close>

theorem C1_final_ordered:
  assumes "dict_index (weights_or_default weights) ''skills'' = Inr w_sk"
    and "dict_index (weights_or_default weights) ''geo'' = Inr w_geo"
    and "dict_index (weights_or_default weights) ''regression'' = Inr w_reg"
    and "0 \<le> w_sk" "w_sk \<le> 1" "0 \<le> w_geo" "w_geo \<le> 1" "0 \<le> w_reg" "w_reg \<le> 1"
  shows "\<exists>b. predict_2026 inp weights = Inr b
             \<and> baseline_low b \<le> baseline_high b
             \<and> final_low b \<le> final_mid b \<and> final_mid b \<le> final_high b"
proof -
  obtain b rk lvl bl where R: "predict_2026 inp weights = Inr b"
    and BL: "map_of BASELINES_2024 rk = Some bl"
    and P: "map_of bl lvl = Some (baseline_low b, baseline_high b)"
    and C: "apply_cagr (baseline_low b) (baseline_high b) rk 2 = Inr (cagr_low b, cagr_high b)"
    and A: "apply_inflation (cagr_low b) (cagr_high b) = (inflation_low b, inflation_high b)"
    and S: "skills_multiplier b = compute_skills_multiplier (snd (snd (enrich inp)))"
    and G: "compute_geo_multiplier (state inp) = Inr (geo_multiplier b)"
    and RG: "regression_adjustment_field b = regression_adjustment rk lvl (years_experience inp)"
    and FL: "final_low b =
       (1 - w_reg) * ((1 - w_geo) * ((1 - w_sk) * inflation_low b
                                      + w_sk * (inflation_low b * skills_multiplier b))
                      + w_geo * (inflation_low b * skills_multiplier b * geo_multiplier b))
       + w_reg * (inflation_low b * skills_multiplier b * geo_multiplier b
                  * regression_adjustment_field b)"
    and FH: "final_high b =
       (1 - w_reg) * ((1 - w_geo) * ((1 - w_sk) * inflation_high b
                                      + w_sk * (inflation_high b * skills_multiplier b))
                      + w_geo * (inflation_high b * skills_multiplier b * geo_multiplier b))
       + w_reg * (inflation_high b * skills_multiplier b * geo_multiplier b
                  * regression_adjustment_field b)"
    and FM: "final_mid b = (final_low b + final_high b) / 2"
    by (rule predict_2026_Inr [OF assms(1-3), of inp])
  have base: "baseline_low b \<le> baseline_high b"
    using baseline_pair_ordered [OF BL P] by simp
  define f where "f = (1 + dict_get CAGR_BY_ROLE rk 0.05)\<^sup>2"
  have f: "0 \<le> f" by (simp add: f_def)
  have cg: "cagr_low b = baseline_low b * f" "cagr_high b = baseline_high b * f"
    using C by (simp_all add: apply_cagr_Inr f_def)
  have infl: "inflation_low b = baseline_low b * f * INFLATION_2024_TO_2026"
    "inflation_high b = baseline_high b * f * INFLATION_2024_TO_2026"
    using A cg by (simp_all add: apply_inflation_def)
  have "baseline_low b * f \<le> baseline_high b * f"
    using base f by (rule mult_right_mono)
  moreover have "0 \<le> INFLATION_2024_TO_2026"
    by (simp add: INFLATION_2024_TO_2026_def)
  ultimately have il: "inflation_low b \<le> inflation_high b"
    unfolding infl by (rule mult_right_mono)
  have s: "0 \<le> skills_multiplier b"
    using compute_skills_multiplier_bounds(1) [of "snd (snd (enrich inp))"] S by simp
  have g: "0 \<le> geo_multiplier b"
    using G GEO_pos [of "upper (strip (state inp))"] by (simp add: compute_geo_multiplier_Inr)
  have r: "0 \<le> regression_adjustment_field b"
    using regression_adjustment_bounds(1) [of rk lvl "years_experience inp"] RG by simp
  define K where "K = (1 - w_reg) * ((1 - w_geo) * ((1 - w_sk) + w_sk * skills_multiplier b)
       + w_geo * (skills_multiplier b * geo_multiplier b))
       + w_reg * (skills_multiplier b * geo_multiplier b * regression_adjustment_field b)"
  have K: "0 \<le> K"
    unfolding K_def using s g r assms(4-9) by (rule blend_factor_nonneg)
  have lo: "final_low b = inflation_low b * K"
    unfolding FL K_def by (rule blend_factor_eq)
  have hi: "final_high b = inflation_high b * K"
    unfolding FH K_def by (rule blend_factor_eq)
  have "final_low b \<le> final_high b"
    unfolding lo hi using il K by (rule mult_right_mono)
  then have "final_low b \<le> final_mid b \<and> final_mid b \<le> final_high b"
    using FM by simp
  with R base show ?thesis by blast
qed

theorem C1_final_ordered_witness:
  "\<exists>b. predict_2026 \<lparr>role = ''Cybersecurity Engineer'', level = ''Mid'', years_experience = 4,
            state = ''TX'', skills = [''siem'', ''soar'', ''zero_trust'', ''cissp''],
            job_description = None\<rparr> None = Inr b
        \<and> baseline_low b \<le> baseline_high b
        \<and> final_low b \<le> final_mid b \<and> final_mid b \<le> final_high b"
  using C1_final_ordered [OF default_weights_index, of
      "\<lparr>role = ''Cybersecurity Engineer'', level = ''Mid'', years_experience = 4,
            state = ''TX'', skills = [''siem'', ''soar'', ''zero_trust'', ''cissp''],
            job_description = None\<rparr>"]
  by simp

text \<open>
  C10. Without a job description (absent or empty) the skills multiplier of the result
  is computed on the caller's list as it is, duplicates included: for the skill
  \<open>siem\<close> given twice the multiplier is 1.051, strictly more than the 1.0255 of the
  deduplicated list.
\<close>

theorem C10_duplicates_counted:
  "((job_description inp = None \<or> job_description inp = Some [])
      \<and> predict_2026 inp weights = Inr b
    \<longrightarrow> skills_multiplier b = compute_skills_multiplier (skills inp))
   \<and> (\<exists>b1 b2. predict_2026 (demo_engineer\<lparr>skills := [''siem'', ''siem'']\<rparr>) None = Inr b1
        \<and> predict_2026 (demo_engineer\<lparr>skills := remdups [''siem'', ''siem'']\<rparr>) None = Inr b2
        \<and> skills_multiplier b1 = 1.051 \<and> skills_multiplier b2 = 1.0255
        \<and> skills_multiplier b2 < skills_multiplier b1)"
proof (intro conjI impI)
  assume "(job_description inp = None \<or> job_description inp = Some [])
      \<and> predict_2026 inp weights = Inr b"
  then show "skills_multiplier b = compute_skills_multiplier (skills inp)"
    using predict_2026_skills [of inp weights b] enrich_no_description [of inp] by simp
next
  obtain b1 where 1: "predict_2026 (demo_engineer\<lparr>skills := [''siem'', ''siem'']\<rparr>) None = Inr b1"
    using predict_2026_default_total by blast
  obtain b2 where 2: "predict_2026 (demo_engineer\<lparr>skills := remdups [''siem'', ''siem'']\<rparr>) None = Inr b2"
    using predict_2026_default_total by blast
  have n: "job_description (demo_engineer\<lparr>skills := [''siem'', ''siem'']\<rparr>) = None"
    "job_description (demo_engineer\<lparr>skills := remdups [''siem'', ''siem'']\<rparr>) = None"
    by (simp_all add: demo_engineer_def)
  have "skills_multiplier b1 = compute_skills_multiplier [''siem'', ''siem'']"
    using predict_2026_skills [OF 1] enrich_no_description [of "demo_engineer\<lparr>skills := [''siem'', ''siem'']\<rparr>"] n
    by simp
  moreover have "skills_multiplier b2 = compute_skills_multiplier (remdups [''siem'', ''siem''])"
    using predict_2026_skills [OF 2]
      enrich_no_description [of "demo_engineer\<lparr>skills := remdups [''siem'', ''siem'']\<rparr>"] n
    by simp
  ultimately show "\<exists>b1 b2. predict_2026 (demo_engineer\<lparr>skills := [''siem'', ''siem'']\<rparr>) None = Inr b1
        \<and> predict_2026 (demo_engineer\<lparr>skills := remdups [''siem'', ''siem'']\<rparr>) None = Inr b2
        \<and> skills_multiplier b1 = 1.051 \<and> skills_multiplier b2 = 1.0255
        \<and> skills_multiplier b2 < skills_multiplier b1"
    using 1 2 siem_twice by auto
qed

section \<open>Enrichment from the job description\<close>

lemma or_else_role:
  assumes "dict_has BASELINES_2024 rk"
  shows "or_else (first_contained ROLE_ALIASES t) rk =
           (case first_contained ROLE_ALIASES t of Some r \<Rightarrow> r | None \<Rightarrow> rk)"
    and "dict_has BASELINES_2024 (or_else (first_contained ROLE_ALIASES t) rk)"
proof -
  show e: "or_else (first_contained ROLE_ALIASES t) rk =
           (case first_contained ROLE_ALIASES t of Some r \<Rightarrow> r | None \<Rightarrow> rk)"
  proof (cases "first_contained ROLE_ALIASES t")
    case None
    then show ?thesis by (simp add: or_else_def)
  next
    case (Some v)
    then have "v \<in> snd ` set ROLE_ALIASES" by (rule first_contained_value)
    then have "v \<noteq> []" by (rule role_alias_value)
    with Some show ?thesis by (simp add: or_else_def)
  qed
  show "dict_has BASELINES_2024 (or_else (first_contained ROLE_ALIASES t) rk)"
  proof (cases "first_contained ROLE_ALIASES t")
    case None
    with assms show ?thesis by (simp add: or_else_def)
  next
    case (Some v)
    then have "v \<in> snd ` set ROLE_ALIASES" by (rule first_contained_value)
    then have "dict_has BASELINES_2024 v" by (rule role_alias_value)
    with Some e show ?thesis by simp
  qed
qed

lemma or_else_level:
  assumes "lv = ''entry'' \<or> lv = ''mid'' \<or> lv = ''senior''"
  shows "or_else (first_word_match LEVEL_ALIASES t) lv =
           (case first_word_match LEVEL_ALIASES t of Some l \<Rightarrow> l | None \<Rightarrow> lv)"
    and "or_else (first_word_match LEVEL_ALIASES t) lv = ''entry''
         \<or> or_else (first_word_match LEVEL_ALIASES t) lv = ''mid''
         \<or> or_else (first_word_match LEVEL_ALIASES t) lv = ''senior''"
proof -
  show e: "or_else (first_word_match LEVEL_ALIASES t) lv =
           (case first_word_match LEVEL_ALIASES t of Some l \<Rightarrow> l | None \<Rightarrow> lv)"
  proof (cases "first_word_match LEVEL_ALIASES t")
    case None
    then show ?thesis by (simp add: or_else_def)
  next
    case (Some v)
    then have "v \<in> snd ` set LEVEL_ALIASES" by (rule first_word_match_value)
    then have "v \<noteq> []" by (rule level_alias_value)
    with Some show ?thesis by (simp add: or_else_def)
  qed
  show "or_else (first_word_match LEVEL_ALIASES t) lv = ''entry''
         \<or> or_else (first_word_match LEVEL_ALIASES t) lv = ''mid''
         \<or> or_else (first_word_match LEVEL_ALIASES t) lv = ''senior''"
  proof (cases "first_word_match LEVEL_ALIASES t")
    case None
    with assms show ?thesis by (simp add: or_else_def)
  next
    case (Some v)
    then have "v \<in> snd ` set LEVEL_ALIASES" by (rule first_word_match_value)
    then have "v = ''entry'' \<or> v = ''mid'' \<or> v = ''senior''" by (rule level_alias_value)
    with Some e show ?thesis by simp
  qed
qed

lemma extract_fields:
  "ext_role_key (extract_from_text d) = first_contained ROLE_ALIASES (lower d)"
  "ext_level (extract_from_text d) = first_word_match LEVEL_ALIASES (lower d)"
  by (simp_all add: extract_from_text_def Let_def)

lemma sorted_set_props:
  "set (sorted_set xs) = set xs" "distinct (sorted_set xs)" "sorted (sorted_set xs)"
  by (simp_all add: sorted_set_def)

text \<open>
  C7. With a non-empty job description, the role key and the level the result is
  computed from are the extractor's whenever it found one, the caller's normalised
  values otherwise, and the skills the premium is computed from are the sorted,
  duplicate-free union of the caller's skills and the extracted ones.
\<close>

theorem C7_description_priority:
  assumes "job_description inp = Some d" and "d \<noteq> []"
    and "predict_2026 inp weights = Inr b"
  shows "\<exists>rk lvl sk bl.
      rk = (case ext_role_key (extract_from_text d) of
              Some r \<Rightarrow> r | None \<Rightarrow> normalize_role (role inp))
    \<and> lvl = (case ext_level (extract_from_text d) of
              Some l \<Rightarrow> l | None \<Rightarrow> normalize_level (level inp))
    \<and> sk = sorted_set (skills inp @ ext_skills (extract_from_text d))
    \<and> set sk = set (skills inp) \<union> set (ext_skills (extract_from_text d))
    \<and> distinct sk
    \<and> enrich inp = (rk, lvl, sk)
    \<and> map_of BASELINES_2024 rk = Some bl
    \<and> map_of bl lvl = Some (baseline_low b, baseline_high b)
    \<and> apply_cagr (baseline_low b) (baseline_high b) rk 2 = Inr (cagr_low b, cagr_high b)
    \<and> regression_adjustment_field b = regression_adjustment rk lvl (years_experience inp)
    \<and> skills_multiplier b = compute_skills_multiplier sk"
proof -
  define ext where "ext = extract_from_text d"
  define rk where "rk = (case ext_role_key ext of
              Some r \<Rightarrow> r | None \<Rightarrow> normalize_role (role inp))"
  define lvl where "lvl = (case ext_level ext of
              Some l \<Rightarrow> l | None \<Rightarrow> normalize_level (level inp))"
  define sk where "sk = sorted_set (skills inp @ ext_skills ext)"
  have E0: "enrich inp = (or_else (ext_role_key ext) (normalize_role (role inp)),
                          or_else (ext_level ext) (normalize_level (level inp)), sk)"
    using assms(1,2) by (simp add: enrich_def Let_def ext_def sk_def)
  have r1: "or_else (ext_role_key ext) (normalize_role (role inp)) = rk"
    unfolding rk_def ext_def extract_fields
    by (rule or_else_role(1) [OF normalize_role_valid])
  have l1: "or_else (ext_level ext) (normalize_level (level inp)) = lvl"
    unfolding lvl_def ext_def extract_fields
    by (rule or_else_level(1) [OF normalize_level_valid])
  have E: "enrich inp = (rk, lvl, sk)"
    using E0 unfolding r1 l1 .
  have rk_ok: "dict_has BASELINES_2024 rk"
    using or_else_role(2) [OF normalize_role_valid, of "lower d" "role inp"] r1
    by (simp add: ext_def extract_fields)
  have lvl_ok: "lvl = ''entry'' \<or> lvl = ''mid'' \<or> lvl = ''senior''"
    using or_else_level(2) [OF normalize_level_valid, of "lower d" "level inp"] l1
    by (simp add: ext_def extract_fields)
  obtain w_sk w_geo w_reg where W:
    "dict_index (weights_or_default weights) ''skills'' = Inr w_sk"
    "dict_index (weights_or_default weights) ''geo'' = Inr w_geo"
    "dict_index (weights_or_default weights) ''regression'' = Inr w_reg"
    using predict_2026_Inr_weights [OF assms(3)] by blast
  obtain b' rk' lvl' bl where R: "predict_2026 inp weights = Inr b'"
    and RK: "rk' = (if dict_has BASELINES_2024 (fst (enrich inp)) then fst (enrich inp)
           else ''cybersecurity_engineer'')"
    and BL: "map_of BASELINES_2024 rk' = Some bl"
    and LV: "lvl' = (if dict_has bl (fst (snd (enrich inp))) then fst (snd (enrich inp)) else ''mid'')"
    and P: "map_of bl lvl' = Some (baseline_low b', baseline_high b')"
    and C: "apply_cagr (baseline_low b') (baseline_high b') rk' 2 = Inr (cagr_low b', cagr_high b')"
    and S: "skills_multiplier b' = compute_skills_multiplier (snd (snd (enrich inp)))"
    and RG: "regression_adjustment_field b' = regression_adjustment rk' lvl' (years_experience inp)"
    by (rule predict_2026_Inr [OF W, of inp])
  from R assms(3) have b: "b' = b" by simp
  have rk': "rk' = rk" using RK E rk_ok by simp
  have "dict_has bl lvl"
    using BL lvl_ok unfolding rk' by (rule baseline_has_level)
  then have lvl': "lvl' = lvl" using LV E by simp
  have "set sk = set (skills inp) \<union> set (ext_skills ext)" "distinct sk"
    by (simp_all add: sk_def sorted_set_props)
  then have "rk = rk \<and> lvl = lvl \<and> sk = sk
    \<and> set sk = set (skills inp) \<union> set (ext_skills ext)
    \<and> distinct sk
    \<and> enrich inp = (rk, lvl, sk)
    \<and> map_of BASELINES_2024 rk = Some bl
    \<and> map_of bl lvl = Some (baseline_low b, baseline_high b)
    \<and> apply_cagr (baseline_low b) (baseline_high b) rk 2 = Inr (cagr_low b, cagr_high b)
    \<and> regression_adjustment_field b = regression_adjustment rk lvl (years_experience inp)
    \<and> skills_multiplier b = compute_skills_multiplier sk"
    using E BL P C S RG unfolding b rk' lvl' by simp
  then show ?thesis
    unfolding rk_def lvl_def sk_def ext_def by blast
qed

lemma demo_extract:
  "extract_from_text demo_text =
     \<lparr>ext_role_key = Some ''soc_analyst'', ext_level = Some ''entry'',
      ext_skills = [''edr'', ''security_plus'', ''siem'']\<rparr>"
  unfolding demo_text_def by code_simp

text \<open>
  C9. For the text of the third demonstration input the extracted skills include
  \<open>siem\<close>, \<open>edr\<close> and \<open>security_plus\<close>, and the extracted level is \<open>entry\<close>.
\<close>

theorem C9_extraction_scenario:
  "''siem'' \<in> set (ext_skills (extract_from_text
        ''Entry SOC analyst with EDR and SIEM experience. Security+ is a plus.''))
   \<and> ''edr'' \<in> set (ext_skills (extract_from_text
        ''Entry SOC analyst with EDR and SIEM experience. Security+ is a plus.''))
   \<and> ''security_plus'' \<in> set (ext_skills (extract_from_text
        ''Entry SOC analyst with EDR and SIEM experience. Security+ is a plus.''))
   \<and> ext_level (extract_from_text
        ''Entry SOC analyst with EDR and SIEM experience. Security+ is a plus.'') = Some ''entry''
   \<and> extract_from_text ''Entry SOC analyst with EDR and SIEM experience. Security+ is a plus.''
       = \<lparr>ext_role_key = Some ''soc_analyst'', ext_level = Some ''entry'',
          ext_skills = [''edr'', ''security_plus'', ''siem'']\<rparr>"
  using demo_extract unfolding demo_text_def by simp

lemma demo_sorted_set:
  "sorted_set ([''siem'', ''edr'', ''security_plus''] @ [''edr'', ''security_plus'', ''siem''])
     = [''edr'', ''security_plus'', ''siem'']"
  by code_simp

theorem C7_description_priority_witness:
  "\<exists>b. predict_2026 demo_soc None = Inr b
       \<and> baseline_low b = 70000 \<and> baseline_high b = 95000
       \<and> skills_multiplier b = compute_skills_multiplier [''edr'', ''security_plus'', ''siem'']
       \<and> regression_adjustment_field b = regression_adjustment ''soc_analyst'' ''entry'' 1"
proof -
  obtain b where R: "predict_2026 demo_soc None = Inr b"
    using predict_2026_default_total by blast
  have d: "job_description demo_soc = Some demo_text" "demo_text \<noteq> []"
    by (simp_all add: demo_soc_def demo_text_def)
  from C7_description_priority [OF d R]
  obtain rk lvl sk bl where
    rk: "rk = (case ext_role_key (extract_from_text demo_text) of
              Some r \<Rightarrow> r | None \<Rightarrow> normalize_role (role demo_soc))"
    and lvl: "lvl = (case ext_level (extract_from_text demo_text) of
              Some l \<Rightarrow> l | None \<Rightarrow> normalize_level (level demo_soc))"
    and sk: "sk = sorted_set (skills demo_soc @ ext_skills (extract_from_text demo_text))"
    and BL: "map_of BASELINES_2024 rk = Some bl"
    and P: "map_of bl lvl = Some (baseline_low b, baseline_high b)"
    and RG: "regression_adjustment_field b
               = regression_adjustment rk lvl (years_experience demo_soc)"
    and S: "skills_multiplier b = compute_skills_multiplier sk"
    by (elim exE conjE)
  have rk': "rk = ''soc_analyst''" unfolding rk demo_extract by simp
  have lvl': "lvl = ''entry''" unfolding lvl demo_extract by simp
  have "skills demo_soc = [''siem'', ''edr'', ''security_plus'']"
    by (simp add: demo_soc_def)
  then have sk': "sk = [''edr'', ''security_plus'', ''siem'']"
    unfolding sk demo_extract using demo_sorted_set by simp
  have y: "years_experience demo_soc = 1" by (simp add: demo_soc_def)
  have "map_of BASELINES_2024 ''soc_analyst''
          = Some [(''entry'', (70000, 95000)), (''mid'', (95000, 125000)),
                  (''senior'', (125000, 160000))]"
    by (simp add: BASELINES_2024_def)
  with BL have "bl = [(''entry'', (70000, 95000)), (''mid'', (95000, 125000)),
                  (''senior'', (125000, 160000))]"
    unfolding rk' by simp
  with P have "baseline_low b = 70000 \<and> baseline_high b = 95000"
    unfolding lvl' by simp
  with R RG S show ?thesis
    unfolding rk' lvl' sk' y by blast
qed

theorem C10_duplicates_counted_witness:
  "\<exists>b. job_description (demo_engineer\<lparr>skills := [''siem'', ''siem'']\<rparr>) = None
       \<and> predict_2026 (demo_engineer\<lparr>skills := [''siem'', ''siem'']\<rparr>) None = Inr b
       \<and> skills_multiplier b = compute_skills_multiplier [''siem'', ''siem'']"
proof -
  obtain b where R: "predict_2026 (demo_engineer\<lparr>skills := [''siem'', ''siem'']\<rparr>) None = Inr b"
    using predict_2026_default_total by blast
  have n: "job_description (demo_engineer\<lparr>skills := [''siem'', ''siem'']\<rparr>) = None"
    by (simp add: demo_engineer_def)
  show ?thesis
    using C10_duplicates_counted [of "demo_engineer\<lparr>skills := [''siem'', ''siem'']\<rparr>" None b] R n
    by simp
qed

section \<open>Weight extremes\<close>

lemma enrich_valid:
  "dict_has BASELINES_2024 (fst (enrich inp))"
  "fst (snd (enrich inp)) = ''entry'' \<or> fst (snd (enrich inp)) = ''mid''
     \<or> fst (snd (enrich inp)) = ''senior''"
proof -
  have "dict_has BASELINES_2024 (fst (enrich inp))
      \<and> (fst (snd (enrich inp)) = ''entry'' \<or> fst (snd (enrich inp)) = ''mid''
     \<or> fst (snd (enrich inp)) = ''senior'')"
  proof (cases "job_description inp = None \<or> job_description inp = Some []")
    case True
    then have "enrich inp = (normalize_role (role inp), normalize_level (level inp), skills inp)"
      by (rule enrich_no_description)
    then show ?thesis
      using normalize_role_valid [of "role inp"] normalize_level_valid [of "level inp"] by simp
  next
    case False
    then obtain d where d: "job_description inp = Some d" "d \<noteq> []" by auto
    then have "enrich inp =
        (or_else (first_contained ROLE_ALIASES (lower d)) (normalize_role (role inp)),
         or_else (first_word_match LEVEL_ALIASES (lower d)) (normalize_level (level inp)),
         sorted_set (skills inp @ ext_skills (extract_from_text d)))"
      by (simp add: enrich_def Let_def extract_fields)
    then show ?thesis
      using or_else_role(2) [OF normalize_role_valid, of "lower d" "role inp"]
        or_else_level(2) [OF normalize_level_valid, of "lower d" "level inp"]
      by simp
  qed
  then show "dict_has BASELINES_2024 (fst (enrich inp))"
    and "fst (snd (enrich inp)) = ''entry'' \<or> fst (snd (enrich inp)) = ''mid''
     \<or> fst (snd (enrich inp)) = ''senior''"
    by simp_all
qed

lemma predict_2026_tied:
  assumes W: "dict_index (weights_or_default weights) ''skills'' = Inr w_sk"
             "dict_index (weights_or_default weights) ''geo'' = Inr w_geo"
             "dict_index (weights_or_default weights) ''regression'' = Inr w_reg"
  obtains b bl where
    "predict_2026 inp weights = Inr b"
    "map_of BASELINES_2024 (fst (enrich inp)) = Some bl"
    "map_of bl (fst (snd (enrich inp))) = Some (baseline_low b, baseline_high b)"
    "apply_cagr (baseline_low b) (baseline_high b) (fst (enrich inp)) 2
       = Inr (cagr_low b, cagr_high b)"
    "apply_inflation (cagr_low b) (cagr_high b) = (inflation_low b, inflation_high b)"
    "skills_multiplier b = compute_skills_multiplier (snd (snd (enrich inp)))"
    "compute_geo_multiplier (state inp) = Inr (geo_multiplier b)"
    "regression_adjustment_field b
       = regression_adjustment (fst (enrich inp)) (fst (snd (enrich inp))) (years_experience inp)"
    "final_low b =
       (1 - w_reg) * ((1 - w_geo) * ((1 - w_sk) * inflation_low b
                                      + w_sk * (inflation_low b * skills_multiplier b))
                      + w_geo * (inflation_low b * skills_multiplier b * geo_multiplier b))
       + w_reg * (inflation_low b * skills_multiplier b * geo_multiplier b
                  * regression_adjustment_field b)"
    "final_high b =
       (1 - w_reg) * ((1 - w_geo) * ((1 - w_sk) * inflation_high b
                                      + w_sk * (inflation_high b * skills_multiplier b))
                      + w_geo * (inflation_high b * skills_multiplier b * geo_multiplier b))
       + w_reg * (inflation_high b * skills_multiplier b * geo_multiplier b
                  * regression_adjustment_field b)"
proof -
  obtain b rk lvl bl where R: "predict_2026 inp weights = Inr b"
    and RK: "rk = (if dict_has BASELINES_2024 (fst (enrich inp)) then fst (enrich inp)
           else ''cybersecurity_engineer'')"
    and BL: "map_of BASELINES_2024 rk = Some bl"
    and LV: "lvl = (if dict_has bl (fst (snd (enrich inp))) then fst (snd (enrich inp)) else ''mid'')"
    and P: "map_of bl lvl = Some (baseline_low b, baseline_high b)"
    and C: "apply_cagr (baseline_low b) (baseline_high b) rk 2 = Inr (cagr_low b, cagr_high b)"
    and A: "apply_inflation (cagr_low b) (cagr_high b) = (inflation_low b, inflation_high b)"
    and S: "skills_multiplier b = compute_skills_multiplier (snd (snd (enrich inp)))"
    and G: "compute_geo_multiplier (state inp) = Inr (geo_multiplier b)"
    and RG: "regression_adjustment_field b = regression_adjustment rk lvl (years_experience inp)"
    and FL: "final_low b =
       (1 - w_reg) * ((1 - w_geo) * ((1 - w_sk) * inflation_low b
                                      + w_sk * (inflation_low b * skills_multiplier b))
                      + w_geo * (inflation_low b * skills_multiplier b * geo_multiplier b))
       + w_reg * (inflation_low b * skills_multiplier b * geo_multiplier b
                  * regression_adjustment_field b)"
    and FH: "final_high b =
       (1 - w_reg) * ((1 - w_geo) * ((1 - w_sk) * inflation_high b
                                      + w_sk * (inflation_high b * skills_multiplier b))
                      + w_geo * (inflation_high b * skills_multiplier b * geo_multiplier b))
       + w_reg * (inflation_high b * skills_multiplier b * geo_multiplier b
                  * regression_adjustment_field b)"
    by (rule predict_2026_Inr [OF W, of inp])
  have rk: "rk = fst (enrich inp)" using RK enrich_valid(1) [of inp] by simp
  have "dict_has bl (fst (snd (enrich inp)))"
    using BL enrich_valid(2) [of inp] by (rule baseline_has_level)
  then have lvl: "lvl = fst (snd (enrich inp))" using LV by simp
  show thesis
    using that [of b bl] R BL P C A S G RG FL FH unfolding rk lvl by blast
qed

text \<open>
  C3. With the three weights 0 the final low and high are candidate A: the baseline
  pair of the resolved role key and level, after growth and after inflation. With
  the three weights 1 they are candidate E: that pair times the skills multiplier of
  the skills in force, the geo multiplier of the location and the regression
  multiplier of the role key, level and years of experience.
\<close>

theorem C3_weight_extremes:
  "(dict_index ws ''skills'' = Inr 0 \<and> dict_index ws ''geo'' = Inr 0
      \<and> dict_index ws ''regression'' = Inr 0
    \<longrightarrow> (\<exists>b bl. predict_2026 inp (Some ws) = Inr b
           \<and> map_of BASELINES_2024 (fst (enrich inp)) = Some bl
           \<and> map_of bl (fst (snd (enrich inp))) = Some (baseline_low b, baseline_high b)
           \<and> apply_cagr (baseline_low b) (baseline_high b) (fst (enrich inp)) 2
                = Inr (cagr_low b, cagr_high b)
           \<and> apply_inflation (cagr_low b) (cagr_high b) = (inflation_low b, inflation_high b)
           \<and> final_low b = inflation_low b \<and> final_high b = inflation_high b))
   \<and> (dict_index ws ''skills'' = Inr 1 \<and> dict_index ws ''geo'' = Inr 1
      \<and> dict_index ws ''regression'' = Inr 1
    \<longrightarrow> (\<exists>b bl. predict_2026 inp (Some ws) = Inr b
           \<and> map_of BASELINES_2024 (fst (enrich inp)) = Some bl
           \<and> map_of bl (fst (snd (enrich inp))) = Some (baseline_low b, baseline_high b)
           \<and> apply_cagr (baseline_low b) (baseline_high b) (fst (enrich inp)) 2
                = Inr (cagr_low b, cagr_high b)
           \<and> apply_inflation (cagr_low b) (cagr_high b) = (inflation_low b, inflation_high b)
           \<and> skills_multiplier b = compute_skills_multiplier (snd (snd (enrich inp)))
           \<and> compute_geo_multiplier (state inp) = Inr (geo_multiplier b)
           \<and> regression_adjustment_field b
                = regression_adjustment (fst (enrich inp)) (fst (snd (enrich inp)))
                    (years_experience inp)
           \<and> final_low b = inflation_low b * skills_multiplier b * geo_multiplier b
                              * regression_adjustment_field b
           \<and> final_high b = inflation_high b * skills_multiplier b * geo_multiplier b
                              * regression_adjustment_field b))"
proof (intro conjI impI)
  assume h: "dict_index ws ''skills'' = Inr 0 \<and> dict_index ws ''geo'' = Inr 0
      \<and> dict_index ws ''regression'' = Inr 0"
  then have W: "dict_index (weights_or_default (Some ws)) ''skills'' = Inr 0"
    "dict_index (weights_or_default (Some ws)) ''geo'' = Inr 0"
    "dict_index (weights_or_default (Some ws)) ''regression'' = Inr 0"
    by (simp_all add: given_weights_index)
  obtain b bl where R: "predict_2026 inp (Some ws) = Inr b"
    and T: "map_of BASELINES_2024 (fst (enrich inp)) = Some bl"
      "map_of bl (fst (snd (enrich inp))) = Some (baseline_low b, baseline_high b)"
      "apply_cagr (baseline_low b) (baseline_high b) (fst (enrich inp)) 2
         = Inr (cagr_low b, cagr_high b)"
      "apply_inflation (cagr_low b) (cagr_high b) = (inflation_low b, inflation_high b)"
    and FL: "final_low b =
       (1 - 0) * ((1 - 0) * ((1 - 0) * inflation_low b
                                      + 0 * (inflation_low b * skills_multiplier b))
                      + 0 * (inflation_low b * skills_multiplier b * geo_multiplier b))
       + 0 * (inflation_low b * skills_multiplier b * geo_multiplier b
                  * regression_adjustment_field b)"
    and FH: "final_high b =
       (1 - 0) * ((1 - 0) * ((1 - 0) * inflation_high b
                                      + 0 * (inflation_high b * skills_multiplier b))
                      + 0 * (inflation_high b * skills_multiplier b * geo_multiplier b))
       + 0 * (inflation_high b * skills_multiplier b * geo_multiplier b
                  * regression_adjustment_field b)"
    by (rule predict_2026_tied [OF W, of inp])
  from FL FH have "final_low b = inflation_low b" "final_high b = inflation_high b"
    by simp_all
  with R T show "\<exists>b bl. predict_2026 inp (Some ws) = Inr b
           \<and> map_of BASELINES_2024 (fst (enrich inp)) = Some bl
           \<and> map_of bl (fst (snd (enrich inp))) = Some (baseline_low b, baseline_high b)
           \<and> apply_cagr (baseline_low b) (baseline_high b) (fst (enrich inp)) 2
                = Inr (cagr_low b, cagr_high b)
           \<and> apply_inflation (cagr_low b) (cagr_high b) = (inflation_low b, inflation_high b)
           \<and> final_low b = inflation_low b \<and> final_high b = inflation_high b"
    by blast
next
  assume h: "dict_index ws ''skills'' = Inr 1 \<and> dict_index ws ''geo'' = Inr 1
      \<and> dict_index ws ''regression'' = Inr 1"
  then have W: "dict_index (weights_or_default (Some ws)) ''skills'' = Inr 1"
    "dict_index (weights_or_default (Some ws)) ''geo'' = Inr 1"
    "dict_index (weights_or_default (Some ws)) ''regression'' = Inr 1"
    by (simp_all add: given_weights_index)
  obtain b bl where R: "predict_2026 inp (Some ws) = Inr b"
    and T: "map_of BASELINES_2024 (fst (enrich inp)) = Some bl"
      "map_of bl (fst (snd (enrich inp))) = Some (baseline_low b, baseline_high b)"
      "apply_cagr (baseline_low b) (baseline_high b) (fst (enrich inp)) 2
         = Inr (cagr_low b, cagr_high b)"
      "apply_inflation (cagr_low b) (cagr_high b) = (inflation_low b, inflation_high b)"
      "skills_multiplier b = compute_skills_multiplier (snd (snd (enrich inp)))"
      "compute_geo_multiplier (state inp) = Inr (geo_multiplier b)"
      "regression_adjustment_field b
         = regression_adjustment (fst (enrich inp)) (fst (snd (enrich inp)))
             (years_experience inp)"
    and FL: "final_low b =
       (1 - 1) * ((1 - 1) * ((1 - 1) * inflation_low b
                                      + 1 * (inflation_low b * skills_multiplier b))
                      + 1 * (inflation_low b * skills_multiplier b * geo_multiplier b))
       + 1 * (inflation_low b * skills_multiplier b * geo_multiplier b
                  * regression_adjustment_field b)"
    and FH: "final_high b =
       (1 - 1) * ((1 - 1) * ((1 - 1) * inflation_high b
                                      + 1 * (inflation_high b * skills_multiplier b))
                      + 1 * (inflation_high b * skills_multiplier b * geo_multiplier b))
       + 1 * (inflation_high b * skills_multiplier b * geo_multiplier b
                  * regression_adjustment_field b)"
    by (rule predict_2026_tied [OF W, of inp])
  from FL FH have "final_low b = inflation_low b * skills_multiplier b * geo_multiplier b
                              * regression_adjustment_field b"
    "final_high b = inflation_high b * skills_multiplier b * geo_multiplier b
                              * regression_adjustment_field b"
    by simp_all
  with R T show "\<exists>b bl. predict_2026 inp (Some ws) = Inr b
           \<and> map_of BASELINES_2024 (fst (enrich inp)) = Some bl
           \<and> map_of bl (fst (snd (enrich inp))) = Some (baseline_low b, baseline_high b)
           \<and> apply_cagr (baseline_low b) (baseline_high b) (fst (enrich inp)) 2
                = Inr (cagr_low b, cagr_high b)
           \<and> apply_inflation (cagr_low b) (cagr_high b) = (inflation_low b, inflation_high b)
           \<and> skills_multiplier b = compute_skills_multiplier (snd (snd (enrich inp)))
           \<and> compute_geo_multiplier (state inp) = Inr (geo_multiplier b)
           \<and> regression_adjustment_field b
                = regression_adjustment (fst (enrich inp)) (fst (snd (enrich inp)))
                    (years_experience inp)
           \<and> final_low b = inflation_low b * skills_multiplier b * geo_multiplier b
                              * regression_adjustment_field b
           \<and> final_high b = inflation_high b * skills_multiplier b * geo_multiplier b
                              * regression_adjustment_field b"
    by blast
qed

lemma demo_engineer_enrich:
  "enrich demo_engineer =
     (''cybersecurity_engineer'', ''mid'', [''siem'', ''soar'', ''zero_trust'', ''cissp''])"
  by code_simp

lemma demo_engineer_factors:
  "map_of BASELINES_2024 ''cybersecurity_engineer''
     = Some [(''entry'', (90000, 120000)), (''mid'', (120000, 160000)),
             (''senior'', (160000, 210000))]"
  "apply_cagr 120000 160000 ''cybersecurity_engineer'' 2 = Inr (132300, 176400)"
  "apply_inflation 132300 176400 = (141561, 188748)"
  "compute_skills_multiplier [''siem'', ''soar'', ''zero_trust'', ''cissp''] = 1.1275"
  "compute_geo_multiplier ''TX'' = Inr 1.03"
  "regression_adjustment ''cybersecurity_engineer'' ''mid'' 4 = 1"
  by code_simp+

theorem C3_weight_extremes_witness:
  "(\<exists>b. predict_2026 demo_engineer
            (Some [(''skills'', 0), (''geo'', 0), (''regression'', 0)]) = Inr b
        \<and> final_low b = 141561 \<and> final_high b = 188748)
   \<and> (\<exists>b. predict_2026 demo_engineer
            (Some [(''skills'', 1), (''geo'', 1), (''regression'', 1)]) = Inr b
        \<and> final_low b = 141561 * 1.1275 * 1.03 * 1
        \<and> final_high b = 188748 * 1.1275 * 1.03 * 1)"
proof -
  have e: "fst (enrich demo_engineer) = ''cybersecurity_engineer''"
    "fst (snd (enrich demo_engineer)) = ''mid''"
    "snd (snd (enrich demo_engineer)) = [''siem'', ''soar'', ''zero_trust'', ''cissp'']"
    by (simp_all add: demo_engineer_enrich)
  have y: "years_experience demo_engineer = 4" "state demo_engineer = ''TX''"
    by (simp_all add: demo_engineer_def)
  have 0: "dict_index [(''skills'', 0::real), (''geo'', 0), (''regression'', 0)] ''skills'' = Inr 0
    \<and> dict_index [(''skills'', 0::real), (''geo'', 0), (''regression'', 0)] ''geo'' = Inr 0
    \<and> dict_index [(''skills'', 0::real), (''geo'', 0), (''regression'', 0)] ''regression'' = Inr 0"
    by (simp add: dict_index_def)
  have 1: "dict_index [(''skills'', 1::real), (''geo'', 1), (''regression'', 1)] ''skills'' = Inr 1
    \<and> dict_index [(''skills'', 1::real), (''geo'', 1), (''regression'', 1)] ''geo'' = Inr 1
    \<and> dict_index [(''skills'', 1::real), (''geo'', 1), (''regression'', 1)] ''regression'' = Inr 1"
    by (simp add: dict_index_def)
  have A: "\<exists>b. predict_2026 demo_engineer
            (Some [(''skills'', 0), (''geo'', 0), (''regression'', 0)]) = Inr b
        \<and> final_low b = 141561 \<and> final_high b = 188748"
  proof -
    from C3_weight_extremes [of "[(''skills'', 0), (''geo'', 0), (''regression'', 0)]" demo_engineer] 0
    obtain b bl where R: "predict_2026 demo_engineer
            (Some [(''skills'', 0), (''geo'', 0), (''regression'', 0)]) = Inr b"
      and BL: "map_of BASELINES_2024 (fst (enrich demo_engineer)) = Some bl"
      and P: "map_of bl (fst (snd (enrich demo_engineer))) = Some (baseline_low b, baseline_high b)"
      and C: "apply_cagr (baseline_low b) (baseline_high b) (fst (enrich demo_engineer)) 2
                = Inr (cagr_low b, cagr_high b)"
      and I: "apply_inflation (cagr_low b) (cagr_high b) = (inflation_low b, inflation_high b)"
      and F: "final_low b = inflation_low b" "final_high b = inflation_high b"
      by blast
    from BL have "bl = [(''entry'', (90000, 120000)), (''mid'', (120000, 160000)),
             (''senior'', (160000, 210000))]"
      unfolding e demo_engineer_factors(1) by simp
    with P have base: "baseline_low b = 120000" "baseline_high b = 160000"
      unfolding e by simp_all
    from C have cg: "cagr_low b = 132300" "cagr_high b = 176400"
      unfolding e base demo_engineer_factors(2) by simp_all
    from I have "inflation_low b = 141561" "inflation_high b = 188748"
      unfolding cg demo_engineer_factors(3) by simp_all
    with R F show ?thesis by auto
  qed
  have B: "\<exists>b. predict_2026 demo_engineer
            (Some [(''skills'', 1), (''geo'', 1), (''regression'', 1)]) = Inr b
        \<and> final_low b = 141561 * 1.1275 * 1.03 * 1
        \<and> final_high b = 188748 * 1.1275 * 1.03 * 1"
  proof -
    from C3_weight_extremes [of "[(''skills'', 1), (''geo'', 1), (''regression'', 1)]" demo_engineer] 1
    obtain b bl where R: "predict_2026 demo_engineer
            (Some [(''skills'', 1), (''geo'', 1), (''regression'', 1)]) = Inr b"
      and BL: "map_of BASELINES_2024 (fst (enrich demo_engineer)) = Some bl"
      and P: "map_of bl (fst (snd (enrich demo_engineer))) = Some (baseline_low b, baseline_high b)"
      and C: "apply_cagr (baseline_low b) (baseline_high b) (fst (enrich demo_engineer)) 2
                = Inr (cagr_low b, cagr_high b)"
      and I: "apply_inflation (cagr_low b) (cagr_high b) = (inflation_low b, inflation_high b)"
      and S: "skills_multiplier b = compute_skills_multiplier (snd (snd (enrich demo_engineer)))"
      and G: "compute_geo_multiplier (state demo_engineer) = Inr (geo_multiplier b)"
      and RG: "regression_adjustment_field b
                = regression_adjustment (fst (enrich demo_engineer))
                    (fst (snd (enrich demo_engineer))) (years_experience demo_engineer)"
      and F: "final_low b = inflation_low b * skills_multiplier b * geo_multiplier b
                              * regression_adjustment_field b"
        "final_high b = inflation_high b * skills_multiplier b * geo_multiplier b
                              * regression_adjustment_field b"
      by blast
    from BL have "bl = [(''entry'', (90000, 120000)), (''mid'', (120000, 160000)),
             (''senior'', (160000, 210000))]"
      unfolding e demo_engineer_factors(1) by simp
    with P have base: "baseline_low b = 120000" "baseline_high b = 160000"
      unfolding e by simp_all
    from C have cg: "cagr_low b = 132300" "cagr_high b = 176400"
      unfolding e base demo_engineer_factors(2) by simp_all
    from I have infl: "inflation_low b = 141561" "inflation_high b = 188748"
      unfolding cg demo_engineer_factors(3) by simp_all
    from S have s: "skills_multiplier b = 1.1275"
      unfolding e demo_engineer_factors(4) .
    from G have g: "geo_multiplier b = 1.03"
      unfolding y demo_engineer_factors(5) by simp
    from RG have r: "regression_adjustment_field b = 1"
      unfolding e y demo_engineer_factors(6) .
    from F have "final_low b = 141561 * 1.1275 * 1.03 * 1"
      "final_high b = 188748 * 1.1275 * 1.03 * 1"
      unfolding infl s g r by simp_all
    with R show ?thesis by blast
  qed
  from A B show ?thesis by (rule conjI)
qed

end
